theory Spec2Isabelle
  imports Complex_Main "HOL-Library.Product_Lexorder"
begin

section \<open>Data model (models.py)\<close>

text \<open>
  A \<open>datetime.date\<close> is modelled by its proleptic Gregorian ordinal
  (\<open>date.toordinal()\<close>): comparison of dates is comparison of ordinals and
  \<open>d - timedelta(days=k)\<close> is \<open>d - k\<close>. Python floats (and SQLite REAL columns)
  are modelled by exact rationals; Python integers by \<open>int\<close>. A nullable column is
  an \<open>option\<close>.

  The tables share the column names \<open>id\<close>, \<open>user_id\<close> and \<open>week_id\<close>; the
  record fields carry a prefix for the table (\<open>u_\<close>, \<open>w_\<close>, \<open>dm_\<close>, \<open>m_\<close>,
  \<open>wb_\<close>, \<open>ad_\<close>), every other field keeps the name of its column.
\<close>

type_synonym date = int

record User =
  u_id :: int
  name :: string
  email :: "string option"
  height_cm :: "rat option"
  goal_weight_kg :: "rat option"
  units :: string

record Week =
  w_id :: int
  w_user_id :: int
  week_number :: int
  start_date :: date

record DailyMetric =
  dm_id :: int
  dm_user_id :: int
  dm_date :: date
  dm_week_id :: "int option"
  weight_kg :: "rat option"
  steps :: "int option"
  run_km :: "rat option"

record Measurement =
  m_id :: int
  m_user_id :: int
  m_week_id :: int
  r_biceps_in :: "rat option"
  l_biceps_in :: "rat option"
  chest_in :: "rat option"
  r_thigh_in :: "rat option"
  l_thigh_in :: "rat option"
  waist_navel_in :: "rat option"

record Wellbeing =
  wb_id :: int
  wb_user_id :: int
  wb_week_id :: int
  sleep_issues :: "int option"
  hunger_issues :: "int option"
  stress_issues :: "int option"

record Adherence =
  ad_id :: int
  ad_user_id :: int
  ad_week_id :: int
  diet_score :: "int option"
  workout_score :: "int option"

text \<open>
  The database: one list per table, in rowid order. A \<open>select\<close> without
  \<open>order_by\<close> scans the table in that order, so \<open>.first()\<close> is the first
  matching element and \<open>.all()\<close> is the filtered list. A committed insert appends
  the row under the next rowid.
\<close>

record store =
  users :: "User list"
  weeks :: "Week list"
  dailies :: "DailyMetric list"
  measurements :: "Measurement list"
  wellbeings :: "Wellbeing list"
  adherences :: "Adherence list"

text \<open>SQLite's rowid for an INTEGER PRIMARY KEY: 1 on an empty table, else the largest
  rowid plus one.\<close>

definition next_id :: "int list \<Rightarrow> int" where
  "next_id ids = (case ids of [] \<Rightarrow> 1 | x # xs \<Rightarrow> fold max xs x + 1)"

text \<open>\<open>.first()\<close> of a result list.\<close>

definition first :: "'a list \<Rightarrow> 'a option" where
  "first xs = (case xs of [] \<Rightarrow> None | x # _ \<Rightarrow> Some x)"

datatype py_error = ValueError | AttributeError

datatype message = Error string | Warning string | Success string

section \<open>Home screen: bootstrap_user (app.py)\<close>

definition bootstrap_user :: "store \<Rightarrow> store \<times> User" where
  "bootstrap_user s =
     (case first (users s) of
        Some u \<Rightarrow> (s, u)
      | None \<Rightarrow>
          (let u = \<lparr>u_id = next_id (map u_id (users s)), name = ''You'', email = None,
                    height_cm = None, goal_weight_kg = None, units = ''metric''\<rparr>
           in (s\<lparr>users := users s @ [u]\<rparr>, u)))"

section \<open>Data entry (pages/2 Data Entry)\<close>

text \<open>\<open>steps_to_km\<close> of the data-entry page takes a scalar; \<open>pd.to_numeric(.., errors="coerce")\<close>
  turns a value that is not a number into NaN, which is the argument \<open>None\<close> here.\<close>

definition steps_to_km :: "rat option \<Rightarrow> rat option" where
  "steps_to_km steps_val =
     (case steps_val of Some s \<Rightarrow> Some ((s * 8) / (1780 * 5)) | None \<Rightarrow> None)"

text \<open>\<open>date.weekday()\<close> is \<open>(toordinal() + 6) % 7\<close>: Monday is 0.\<close>

definition weekday :: "date \<Rightarrow> int" where
  "weekday d = (d + 6) mod 7"

definition monday_start :: "date \<Rightarrow> date" where
  "monday_start d = d - weekday d"

definition get_or_create_week :: "store \<Rightarrow> int \<Rightarrow> date \<Rightarrow> store \<times> Week" where
  "get_or_create_week s user_id d =
     (let start = monday_start d in
      case find (\<lambda>w. w_user_id w = user_id \<and> start_date w = start) (weeks s) of
        Some wk \<Rightarrow> (s, wk)
      | None \<Rightarrow>
          (let last = first (sort_key (\<lambda>w. - week_number w)
                               (filter (\<lambda>w. w_user_id w = user_id) (weeks s)));
               next_num = (case last of Some l \<Rightarrow> week_number l + 1 | None \<Rightarrow> 1);
               wk = \<lparr>w_id = next_id (map w_id (weeks s)), w_user_id = user_id,
                     week_number = next_num, start_date = start\<rparr>
           in (s\<lparr>weeks := weeks s @ [wk]\<rparr>, wk)))"

text \<open>The button "Save daily entry": \<open>weight\<close> and \<open>steps\<close> are the values of the two
  number inputs (a float and an int, both at least 0). The success message also names
  the date and the week; the model keeps its fixed part.\<close>

definition save_daily_entry :: "store \<Rightarrow> int \<Rightarrow> date \<Rightarrow> rat \<Rightarrow> int \<Rightarrow> store \<times> message" where
  "save_daily_entry s user_id d weight steps_in =
     (let km_val = steps_to_km (Some (of_int steps_in));
          (s1, wk) = get_or_create_week s user_id d;
          dm = \<lparr>dm_id = next_id (map dm_id (dailies s1)), dm_user_id = user_id,
                dm_date = d, dm_week_id = Some (w_id wk),
                weight_kg = (if weight = 0 then None else Some weight),
                steps = (if steps_in \<noteq> 0 then Some steps_in else None),
                run_km = km_val\<rparr>
      in (s1\<lparr>dailies := dailies s1 @ [dm]\<rparr>, Success ''Saved daily entry''))"

section \<open>Import / Export (pages/3 Import Export)\<close>

text \<open>\<open>int(x)\<close> of a float truncates towards zero.\<close>

definition py_int :: "rat \<Rightarrow> int" where
  "py_int x = (if 0 \<le> x then \<lfloor>x\<rfloor> else \<lceil>x\<rceil>)"

text \<open>
  An uploaded CSV after \<open>pd.read_csv\<close> and the normalisation of the column names: the
  header, and one record per row. A numeric cell is \<open>None\<close> when it is blank (NaN) or
  when its column is not in the file; the two date cells are taken as parsed by
  \<open>parse_date\<close>.
\<close>

record csv_row =
  csv_week_number :: "rat option"
  csv_start_date :: date
  csv_date :: date
  csv_weight_kg :: "rat option"
  csv_steps :: "rat option"
  csv_r_biceps_in :: "rat option"
  csv_l_biceps_in :: "rat option"
  csv_chest_in :: "rat option"
  csv_r_thigh_in :: "rat option"
  csv_l_thigh_in :: "rat option"
  csv_waist_navel_in :: "rat option"
  csv_sleep_issues :: "rat option"
  csv_hunger_issues :: "rat option"
  csv_stress_issues :: "rat option"
  csv_diet_score :: "rat option"
  csv_workout_score :: "rat option"

record csv =
  header :: "string list"
  body :: "csv_row list"

definition required :: "string list" where
  "required = [''date'', ''weight_kg'', ''steps'', ''week_number'', ''start_date'']"

text \<open>Lines 62 to 67: the week of the row's \<open>start_date\<close>, created with the row's own
  \<open>week_number\<close> when the user has none for that date. \<open>int\<close> of a blank cell raises.\<close>

definition import_week :: "store \<Rightarrow> int \<Rightarrow> csv_row \<Rightarrow> py_error + (store \<times> Week \<times> bool)" where
  "import_week s user_id row =
     (let start = csv_start_date row in
      case find (\<lambda>w. w_user_id w = user_id \<and> start_date w = start) (weeks s) of
        Some wk \<Rightarrow> Inr (s, wk, False)
      | None \<Rightarrow>
          (case csv_week_number row of
             None \<Rightarrow> Inl ValueError
           | Some n \<Rightarrow>
               (let wk = \<lparr>w_id = next_id (map w_id (weeks s)), w_user_id = user_id,
                          week_number = py_int n, start_date = start\<rparr>
                in Inr (s\<lparr>weeks := weeks s @ [wk]\<rparr>, wk, True))))"

text \<open>\<open>sess.add(dm); sess.commit()\<close>: an object loaded from the table is written back
  in place, a new one is inserted.\<close>

definition put_daily :: "bool \<Rightarrow> DailyMetric \<Rightarrow> store \<Rightarrow> store" where
  "put_daily stored dm s =
     (if stored then s\<lparr>dailies := map (\<lambda>r. if dm_id r = dm_id dm then dm else r) (dailies s)\<rparr>
      else s\<lparr>dailies := dailies s @ [dm]\<rparr>)"

text \<open>Lines 69 to 77: the daily upsert by (user, date).\<close>

definition import_daily :: "store \<Rightarrow> int \<Rightarrow> Week \<Rightarrow> csv_row \<Rightarrow> store" where
  "import_daily s user_id wk row =
     (let d = csv_date row;
          found = find (\<lambda>dm. dm_user_id dm = user_id \<and> dm_date dm = d) (dailies s);
          dm = (case found of
                  Some dm \<Rightarrow> dm
                | None \<Rightarrow> \<lparr>dm_id = next_id (map dm_id (dailies s)), dm_user_id = user_id,
                            dm_date = d, dm_week_id = Some (w_id wk), weight_kg = None,
                            steps = None, run_km = None\<rparr>);
          dm1 = dm\<lparr>weight_kg := csv_weight_kg row\<rparr>;
          dm2 = dm1\<lparr>steps := map_option py_int (csv_steps row)\<rparr>;
          dm3 = dm2\<lparr>run_km := (case steps dm2 of
                                   Some st \<Rightarrow> Some ((of_int st * 8) / (1780 * 5))
                                 | None \<Rightarrow> None)\<rparr>;
          dm4 = dm3\<lparr>dm_week_id := Some (w_id wk)\<rparr>
      in put_daily (found \<noteq> None) dm4 s)"

text \<open>\<open>assign_weekly\<close>, once per weekly table. A field is set when its column is in the
  file and its cell is not blank; the row is written only when some field was set.\<close>

definition cell_of :: "string list \<Rightarrow> string \<Rightarrow> rat option \<Rightarrow> rat option" where
  "cell_of hdr f c = (if f \<in> set hdr then c else None)"

definition set_float :: "rat option \<Rightarrow> rat option \<Rightarrow> rat option" where
  "set_float c old = (case c of Some v \<Rightarrow> Some v | None \<Rightarrow> old)"

definition set_int :: "rat option \<Rightarrow> int option \<Rightarrow> int option" where
  "set_int c old = (case c of Some v \<Rightarrow> Some (py_int v) | None \<Rightarrow> old)"

definition assign_weekly_Measurement :: "store \<Rightarrow> int \<Rightarrow> Week \<Rightarrow> string list \<Rightarrow> csv_row \<Rightarrow> store" where
  "assign_weekly_Measurement s user_id wk hdr row =
     (let found = find (\<lambda>m. m_user_id m = user_id \<and> m_week_id m = w_id wk) (measurements s);
          existing = (case found of
                  Some m \<Rightarrow> m
                | None \<Rightarrow> \<lparr>m_id = next_id (map m_id (measurements s)), m_user_id = user_id,
                            m_week_id = w_id wk, r_biceps_in = None, l_biceps_in = None,
                            chest_in = None, r_thigh_in = None, l_thigh_in = None,
                            waist_navel_in = None\<rparr>);
          c1 = cell_of hdr ''r_biceps_in'' (csv_r_biceps_in row);
          c2 = cell_of hdr ''l_biceps_in'' (csv_l_biceps_in row);
          c3 = cell_of hdr ''chest_in'' (csv_chest_in row);
          c4 = cell_of hdr ''r_thigh_in'' (csv_r_thigh_in row);
          c5 = cell_of hdr ''l_thigh_in'' (csv_l_thigh_in row);
          c6 = cell_of hdr ''waist_navel_in'' (csv_waist_navel_in row);
          changed = (c1 \<noteq> None \<or> c2 \<noteq> None \<or> c3 \<noteq> None \<or> c4 \<noteq> None \<or> c5 \<noteq> None \<or> c6 \<noteq> None);
          e = existing\<lparr>r_biceps_in := set_float c1 (r_biceps_in existing),
                        l_biceps_in := set_float c2 (l_biceps_in existing),
                        chest_in := set_float c3 (chest_in existing),
                        r_thigh_in := set_float c4 (r_thigh_in existing),
                        l_thigh_in := set_float c5 (l_thigh_in existing),
                        waist_navel_in := set_float c6 (waist_navel_in existing)\<rparr>
      in if \<not> changed then s
         else if found \<noteq> None
           then s\<lparr>measurements := map (\<lambda>r. if m_id r = m_id e then e else r) (measurements s)\<rparr>
           else s\<lparr>measurements := measurements s @ [e]\<rparr>)"

definition assign_weekly_Wellbeing :: "store \<Rightarrow> int \<Rightarrow> Week \<Rightarrow> string list \<Rightarrow> csv_row \<Rightarrow> store" where
  "assign_weekly_Wellbeing s user_id wk hdr row =
     (let found = find (\<lambda>m. wb_user_id m = user_id \<and> wb_week_id m = w_id wk) (wellbeings s);
          existing = (case found of
                  Some m \<Rightarrow> m
                | None \<Rightarrow> \<lparr>wb_id = next_id (map wb_id (wellbeings s)), wb_user_id = user_id,
                            wb_week_id = w_id wk, sleep_issues = None, hunger_issues = None,
                            stress_issues = None\<rparr>);
          c1 = cell_of hdr ''sleep_issues'' (csv_sleep_issues row);
          c2 = cell_of hdr ''hunger_issues'' (csv_hunger_issues row);
          c3 = cell_of hdr ''stress_issues'' (csv_stress_issues row);
          changed = (c1 \<noteq> None \<or> c2 \<noteq> None \<or> c3 \<noteq> None);
          e = existing\<lparr>sleep_issues := set_int c1 (sleep_issues existing),
                        hunger_issues := set_int c2 (hunger_issues existing),
                        stress_issues := set_int c3 (stress_issues existing)\<rparr>
      in if \<not> changed then s
         else if found \<noteq> None
           then s\<lparr>wellbeings := map (\<lambda>r. if wb_id r = wb_id e then e else r) (wellbeings s)\<rparr>
           else s\<lparr>wellbeings := wellbeings s @ [e]\<rparr>)"

definition assign_weekly_Adherence :: "store \<Rightarrow> int \<Rightarrow> Week \<Rightarrow> string list \<Rightarrow> csv_row \<Rightarrow> store" where
  "assign_weekly_Adherence s user_id wk hdr row =
     (let found = find (\<lambda>m. ad_user_id m = user_id \<and> ad_week_id m = w_id wk) (adherences s);
          existing = (case found of
                  Some m \<Rightarrow> m
                | None \<Rightarrow> \<lparr>ad_id = next_id (map ad_id (adherences s)), ad_user_id = user_id,
                            ad_week_id = w_id wk, diet_score = None, workout_score = None\<rparr>);
          c1 = cell_of hdr ''diet_score'' (csv_diet_score row);
          c2 = cell_of hdr ''workout_score'' (csv_workout_score row);
          changed = (c1 \<noteq> None \<or> c2 \<noteq> None);
          e = existing\<lparr>diet_score := set_int c1 (diet_score existing),
                        workout_score := set_int c2 (workout_score existing)\<rparr>
      in if \<not> changed then s
         else if found \<noteq> None
           then s\<lparr>adherences := map (\<lambda>r. if ad_id r = ad_id e then e else r) (adherences s)\<rparr>
           else s\<lparr>adherences := adherences s @ [e]\<rparr>)"

text \<open>The body of the loop over the rows, and the loop. Every row commits as it goes,
  so an exception leaves the rows before it in the store: the result carries the store
  reached, and either the exception or the two counters.\<close>

definition import_row :: "store \<Rightarrow> int \<Rightarrow> string list \<Rightarrow> csv_row \<Rightarrow> py_error + (store \<times> bool)" where
  "import_row s user_id hdr row =
     (case import_week s user_id row of
        Inl e \<Rightarrow> Inl e
      | Inr (s1, wk, created) \<Rightarrow>
          (let s2 = import_daily s1 user_id wk row;
               s3 = assign_weekly_Measurement s2 user_id wk hdr row;
               s4 = assign_weekly_Wellbeing s3 user_id wk hdr row;
               s5 = assign_weekly_Adherence s4 user_id wk hdr row
           in Inr (s5, created)))"

fun import_rows :: "store \<Rightarrow> int \<Rightarrow> string list \<Rightarrow> csv_row list \<Rightarrow> nat \<Rightarrow> nat
    \<Rightarrow> store \<times> (py_error + nat \<times> nat)" where
  "import_rows s user_id hdr [] n_daily n_week = (s, Inr (n_daily, n_week))"
| "import_rows s user_id hdr (row # rows) n_daily n_week =
     (case import_row s user_id hdr row of
        Inl e \<Rightarrow> (s, Inl e)
      | Inr (s', created) \<Rightarrow>
          import_rows s' user_id hdr rows (n_daily + 1) (if created then n_week + 1 else n_week))"

datatype import_outcome = Missing_columns | Raised py_error | Imported nat nat

definition import_csv :: "store \<Rightarrow> csv \<Rightarrow> store \<times> import_outcome" where
  "import_csv s df =
     (if \<not> set required \<subseteq> set (header df) then (s, Missing_columns)
      else case first (users s) of
        None \<Rightarrow> (if body df = [] then (s, Imported 0 0) else (s, Raised AttributeError))
      | Some user \<Rightarrow>
          (case import_rows s (u_id user) (header df) (body df) 0 0 of
             (s', Inl e) \<Rightarrow> (s', Raised e)
           | (s', Inr (n_daily, n_week)) \<Rightarrow> (s', Imported n_daily n_week)))"

subsection \<open>Guarded bulk deletion\<close>

text \<open>\<open>sorted({dm.week_id for dm in q_daily if dm.week_id is not None})\<close>.\<close>

definition touched_week_ids :: "DailyMetric list \<Rightarrow> int list" where
  "touched_week_ids q_daily = sort (remdups (List.map_filter dm_week_id q_daily))"

text \<open>The loop of lines 197 to 201: the touched weeks with no daily row left.\<close>

definition empty_weeks :: "store \<Rightarrow> int list \<Rightarrow> int list" where
  "empty_weeks s wids =
     filter (\<lambda>wid. filter (\<lambda>dm. dm_week_id dm = Some wid) (dailies s) = []) wids"

definition delete_weekly :: "int list \<Rightarrow> store \<Rightarrow> store" where
  "delete_weekly wids s =
     s\<lparr>measurements := filter (\<lambda>m. m_week_id m \<notin> set wids) (measurements s),
       wellbeings := filter (\<lambda>m. wb_week_id m \<notin> set wids) (wellbeings s),
       adherences := filter (\<lambda>m. ad_week_id m \<notin> set wids) (adherences s)\<rparr>"

definition delete_weeks :: "int list \<Rightarrow> store \<Rightarrow> store" where
  "delete_weeks wids s = s\<lparr>weeks := filter (\<lambda>w. w_id w \<notin> set wids) (weeks s)\<rparr>"

definition delete_by_date :: "store \<Rightarrow> string \<Rightarrow> date \<Rightarrow> date \<Rightarrow> bool \<Rightarrow> bool \<Rightarrow> store \<times> message" where
  "delete_by_date s confirm d_from d_to also_delete_weekly delete_empty_weeks =
     (if confirm \<noteq> ''DELETE'' then (s, Error ''Please type DELETE to confirm.'')
      else
        (let q_daily = filter (\<lambda>dm. d_from \<le> dm_date dm \<and> dm_date dm \<le> d_to) (dailies s);
             touched = touched_week_ids q_daily;
             s1 = s\<lparr>dailies := filter (\<lambda>dm. \<not> (d_from \<le> dm_date dm \<and> dm_date dm \<le> d_to)) (dailies s)\<rparr>;
             s2 = (if also_delete_weekly \<and> touched \<noteq> [] then
                     (let empty = empty_weeks s1 touched in
                      if empty \<noteq> [] then
                        (let s' = delete_weekly empty s1
                         in if delete_empty_weeks then delete_weeks empty s' else s')
                      else s1)
                   else s1)
         in (s2, Success ''Deletion completed. Check the dashboard.'')))"

definition delete_by_week :: "store \<Rightarrow> string \<Rightarrow> int \<Rightarrow> int \<Rightarrow> bool \<Rightarrow> bool \<Rightarrow> store \<times> message" where
  "delete_by_week s confirm2 wk_from wk_to also_delete_weekly2 delete_weeks2 =
     (if confirm2 \<noteq> ''DELETE'' then (s, Error ''Please type DELETE to confirm.'')
      else
        (let week_rows = filter (\<lambda>w. wk_from \<le> week_number w \<and> week_number w \<le> wk_to) (weeks s);
             wids = map w_id week_rows;
             s3 = (if wids \<noteq> [] then
                     (let s1 = s\<lparr>dailies := filter (\<lambda>dm. \<not> (case dm_week_id dm of
                                                   Some w \<Rightarrow> w \<in> set wids | None \<Rightarrow> False)) (dailies s)\<rparr>;
                          s2 = (if also_delete_weekly2 then delete_weekly wids s1 else s1)
                      in if delete_weeks2 then delete_weeks wids s2 else s2)
                   else s)
         in (s3, Success ''Deletion completed for selected weeks.'')))"

section \<open>Manage data, daily tab (pages/5 Manage Data)\<close>

text \<open>A row of the edited grid. \<open>id\<close>, \<open>week_id\<close>, \<open>weight_kg\<close> and \<open>steps\<close> are
  numeric cells, \<open>None\<close> when blank; \<open>int\<close> of a blank \<open>id\<close> raises.\<close>

record daily_edit =
  e_id :: "rat option"
  e_date :: date
  e_week_id :: "rat option"
  e_weight_kg :: "rat option"
  e_steps :: "rat option"

definition save_change :: "store \<Rightarrow> daily_edit \<Rightarrow> py_error + store" where
  "save_change s r =
     (case e_id r of
        None \<Rightarrow> Inl ValueError
      | Some i \<Rightarrow>
          (case find (\<lambda>dm. dm_id dm = py_int i) (dailies s) of
             None \<Rightarrow> Inr s
           | Some dm \<Rightarrow>
               (let dm1 = dm\<lparr>dm_date := e_date r\<rparr>;
                    dm2 = (case e_week_id r of
                             Some w \<Rightarrow> dm1\<lparr>dm_week_id := Some (py_int w)\<rparr>
                           | None \<Rightarrow> dm1);
                    dm3 = dm2\<lparr>weight_kg := e_weight_kg r\<rparr>;
                    dm4 = dm3\<lparr>steps := map_option py_int (e_steps r)\<rparr>;
                    dm5 = (case steps dm4 of
                             Some st \<Rightarrow> dm4\<lparr>run_km := Some ((of_int st * 8) / (1780 * 5))\<rparr>
                           | None \<Rightarrow> dm4\<lparr>run_km := None\<rparr>)
                in Inr (put_daily True dm5 s))))"

text \<open>The loop commits once, after the last row: an exception leaves the table as it
  was, which is the result \<open>Inl\<close>.\<close>

fun save_changes :: "store \<Rightarrow> daily_edit list \<Rightarrow> py_error + store" where
  "save_changes s [] = Inr s"
| "save_changes s (r # rs) =
     (case save_change s r of Inl e \<Rightarrow> Inl e | Inr s' \<Rightarrow> save_changes s' rs)"

text \<open>The weekly tab writes the edited \<open>start_date\<close> back onto the week (lines 117 to
  120), whatever the date and whatever the other weeks of the user.\<close>

definition save_week_start_date :: "store \<Rightarrow> int \<Rightarrow> date \<Rightarrow> store" where
  "save_week_start_date s week_id d =
     (case find (\<lambda>w. w_id w = week_id) (weeks s) of
        Some wk \<Rightarrow> s\<lparr>weeks := map (\<lambda>w. if w_id w = week_id then wk\<lparr>start_date := d\<rparr> else w) (weeks s)\<rparr>
      | None \<Rightarrow> s)"

section \<open>Shared utility layer (utils.py)\<close>

text \<open>
  A pandas frame: its column labels in order, and its rows. A row maps a label to the
  cell, \<open>None\<close> for NaN/NA. Every cell of the frames built here is a number, a date
  (its ordinal) or NA. The frames that \<open>merge\<close> joins here share no label but the key.
\<close>

type_synonym row = "string \<Rightarrow> rat option"

record frame =
  columns :: "string list"
  rows :: "row list"

text \<open>\<open>pd.DataFrame()\<close> and \<open>df.empty\<close> (some axis has length 0).\<close>

definition DataFrame :: frame where
  "DataFrame = \<lparr>columns = [], rows = []\<rparr>"

definition empty :: "frame \<Rightarrow> bool" where
  "empty df = (rows df = [] \<or> columns df = [])"

text \<open>\<open>df[c] = v\<close> for a scalar and for a series: the label is appended when new.\<close>

definition assign_scalar :: "string \<Rightarrow> rat option \<Rightarrow> frame \<Rightarrow> frame" where
  "assign_scalar c v df =
     \<lparr>columns = (if c \<in> set (columns df) then columns df else columns df @ [c]),
      rows = map (\<lambda>r. r(c := v)) (rows df)\<rparr>"

definition assign_series :: "string \<Rightarrow> rat option list \<Rightarrow> frame \<Rightarrow> frame" where
  "assign_series c vs df =
     \<lparr>columns = (if c \<in> set (columns df) then columns df else columns df @ [c]),
      rows = map (\<lambda>(r, v). r(c := v)) (zip (rows df) vs)\<rparr>"

definition column :: "string \<Rightarrow> frame \<Rightarrow> rat option list" where
  "column c df = map (\<lambda>r. r c) (rows df)"

definition REQUIRED_WEEKLY_COLS :: "string list" where
  "REQUIRED_WEEKLY_COLS =
     [''week_id'', ''week_number'', ''start_date'',
      ''avg_weight_kg'', ''avg_steps'', ''weekly_weight_loss'',
      ''diet_score'', ''workout_score'',
      ''sleep_issues'', ''hunger_issues'', ''stress_issues'',
      ''waist_navel_in'', ''chest_in'', ''r_biceps_in'', ''l_biceps_in'', ''r_thigh_in'',
      ''l_thigh_in'']"

text \<open>\<open>_ensure_weekly_cols\<close>: both branches are the source's loops over the required
  labels.\<close>

definition ensure_weekly_cols :: "frame \<Rightarrow> frame" where
  "ensure_weekly_cols df =
     (if empty df then fold (\<lambda>c out. assign_series c [] out) REQUIRED_WEEKLY_COLS DataFrame
      else fold (\<lambda>c df. if c \<notin> set (columns df) then assign_scalar c None df else df)
             REQUIRED_WEEKLY_COLS df)"

text \<open>\<open>_to_dict\<close> of a row of each table, and the label lists of the tables.\<close>

definition DailyMetric_to_dict :: "DailyMetric \<Rightarrow> row" where
  "DailyMetric_to_dict x =
     (\<lambda>_. None)(''id'' := Some (of_int (dm_id x)), ''user_id'' := Some (of_int (dm_user_id x)),
       ''date'' := Some (of_int (dm_date x)), ''week_id'' := map_option of_int (dm_week_id x),
       ''weight_kg'' := weight_kg x, ''steps'' := map_option of_int (steps x),
       ''run_km'' := run_km x)"

definition Week_to_dict :: "Week \<Rightarrow> row" where
  "Week_to_dict x =
     (\<lambda>_. None)(''id'' := Some (of_int (w_id x)), ''user_id'' := Some (of_int (w_user_id x)),
       ''week_number'' := Some (of_int (week_number x)),
       ''start_date'' := Some (of_int (start_date x)))"

definition Measurement_to_dict :: "Measurement \<Rightarrow> row" where
  "Measurement_to_dict x =
     (\<lambda>_. None)(''id'' := Some (of_int (m_id x)), ''user_id'' := Some (of_int (m_user_id x)),
       ''week_id'' := Some (of_int (m_week_id x)),
       ''r_biceps_in'' := r_biceps_in x, ''l_biceps_in'' := l_biceps_in x,
       ''chest_in'' := chest_in x, ''r_thigh_in'' := r_thigh_in x,
       ''l_thigh_in'' := l_thigh_in x, ''waist_navel_in'' := waist_navel_in x)"

definition Wellbeing_to_dict :: "Wellbeing \<Rightarrow> row" where
  "Wellbeing_to_dict x =
     (\<lambda>_. None)(''id'' := Some (of_int (wb_id x)), ''user_id'' := Some (of_int (wb_user_id x)),
       ''week_id'' := Some (of_int (wb_week_id x)),
       ''sleep_issues'' := map_option of_int (sleep_issues x),
       ''hunger_issues'' := map_option of_int (hunger_issues x),
       ''stress_issues'' := map_option of_int (stress_issues x))"

definition Adherence_to_dict :: "Adherence \<Rightarrow> row" where
  "Adherence_to_dict x =
     (\<lambda>_. None)(''id'' := Some (of_int (ad_id x)), ''user_id'' := Some (of_int (ad_user_id x)),
       ''week_id'' := Some (of_int (ad_week_id x)),
       ''diet_score'' := map_option of_int (diet_score x),
       ''workout_score'' := map_option of_int (workout_score x))"

definition load_daily_df :: "store \<Rightarrow> int \<Rightarrow> frame" where
  "load_daily_df s user_id =
     (let rws = filter (\<lambda>dm. dm_user_id dm = user_id) (dailies s) in
      if rws = [] then
        \<lparr>columns = [''id'', ''user_id'', ''date'', ''week_id'', ''weight_kg'', ''steps'', ''run_km''],
         rows = []\<rparr>
      else
        \<lparr>columns = [''id'', ''user_id'', ''date'', ''week_id'', ''weight_kg'', ''steps'', ''run_km''],
         rows = map DailyMetric_to_dict rws\<rparr>)"

text \<open>The mean of a group skips NA and is NA when nothing is left.\<close>

definition mean :: "rat option list \<Rightarrow> rat option" where
  "mean xs =
     (let vs = List.map_filter (\<lambda>x. x) xs
      in if vs = [] then None else Some (sum_list vs / of_nat (length vs)))"

text \<open>\<open>d.groupby("week_id", dropna=False).agg(...).reset_index()\<close>: one row per key,
  the keys in increasing order and the NA key, when there is one, last.\<close>

definition group_keys :: "rat option list \<Rightarrow> rat option list" where
  "group_keys ks =
     map Some (sort (remdups (List.map_filter (\<lambda>x. x) ks))) @ (if None \<in> set ks then [None] else [])"

definition groupby_week_id_agg :: "frame \<Rightarrow> frame" where
  "groupby_week_id_agg d =
     \<lparr>columns = [''week_id'', ''avg_weight_kg'', ''avg_steps''],
      rows = map (\<lambda>k. let g = filter (\<lambda>r. r ''week_id'' = k) (rows d) in
                    (\<lambda>_. None)(''week_id'' := k,
                      ''avg_weight_kg'' := mean (map (\<lambda>r. r ''weight_kg'') g),
                      ''avg_steps'' := mean (map (\<lambda>r. r ''steps'') g)))
               (group_keys (column ''week_id'' d))\<rparr>"

text \<open>\<open>df[[..]]\<close>, \<open>df.drop(columns=..)\<close> and \<open>left.merge(right, how="left")\<close>.\<close>

definition select_columns :: "string list \<Rightarrow> frame \<Rightarrow> frame" where
  "select_columns cs df =
     \<lparr>columns = cs, rows = map (\<lambda>r c. if c \<in> set cs then r c else None) (rows df)\<rparr>"

definition drop_columns :: "string list \<Rightarrow> frame \<Rightarrow> frame" where
  "drop_columns cs df =
     \<lparr>columns = filter (\<lambda>c. c \<notin> set cs) (columns df),
      rows = map (\<lambda>r c. if c \<in> set cs then None else r c) (rows df)\<rparr>"

definition merge_left :: "frame \<Rightarrow> frame \<Rightarrow> string \<Rightarrow> string \<Rightarrow> frame" where
  "merge_left l r left_on right_on =
     \<lparr>columns = columns l @ filter (\<lambda>c. c \<notin> set (columns l)) (columns r),
      rows = concat (map (\<lambda>lr.
                let ms = filter (\<lambda>rr. rr right_on = lr left_on) (rows r) in
                if ms = [] then [\<lambda>c. if c \<in> set (columns l) then lr c else None]
                else map (\<lambda>rr c. if c \<in> set (columns l) then lr c
                                  else if c \<in> set (columns r) then rr c else None) ms)
              (rows l))\<rparr>"

text \<open>\<open>sort_values(by=c, na_position="last")\<close> and
  \<open>drop_duplicates(subset=[c], keep="last")\<close>.\<close>

definition na_last :: "rat option \<Rightarrow> bool \<times> rat" where
  "na_last v = (case v of None \<Rightarrow> (True, 0) | Some x \<Rightarrow> (False, x))"

definition sort_values :: "string \<Rightarrow> frame \<Rightarrow> frame" where
  "sort_values c df = \<lparr>columns = columns df, rows = sort_key (\<lambda>r. na_last (r c)) (rows df)\<rparr>"

fun keep_last :: "string \<Rightarrow> row list \<Rightarrow> row list" where
  "keep_last c [] = []"
| "keep_last c (r # rs) =
     (if r c \<in> set (map (\<lambda>q. q c) rs) then keep_last c rs else r # keep_last c rs)"

definition drop_duplicates :: "string \<Rightarrow> frame \<Rightarrow> frame" where
  "drop_duplicates c df = \<lparr>columns = columns df, rows = keep_last c (rows df)\<rparr>"

text \<open>\<open>series.diff(1)\<close>: NA first, then each value minus the one before it; NA when
  either is NA.\<close>

definition minus_opt :: "rat option \<Rightarrow> rat option \<Rightarrow> rat option" where
  "minus_opt a b = (case a of Some x \<Rightarrow> (case b of Some y \<Rightarrow> Some (x - y) | None \<Rightarrow> None)
                   | None \<Rightarrow> None)"

fun diff_from :: "rat option \<Rightarrow> rat option list \<Rightarrow> rat option list" where
  "diff_from prev [] = []"
| "diff_from prev (x # xs) = minus_opt x prev # diff_from x xs"

definition diff :: "rat option list \<Rightarrow> rat option list" where
  "diff xs = (case xs of [] \<Rightarrow> [] | x # rest \<Rightarrow> None # diff_from x rest)"

text \<open>The loop over the three weekly tables (lines 140 to 148).\<close>

definition merge_weekly :: "frame \<Rightarrow> frame \<Rightarrow> frame" where
  "merge_weekly fr out =
     (if \<not> empty fr then
        (let fr' = drop_duplicates ''week_id'' (sort_values ''id'' fr)
         in merge_left out
              (drop_columns (filter (\<lambda>c. c \<in> set (columns fr')) [''id'', ''user_id'']) fr')
              ''week_id'' ''week_id'')
      else out)"

definition load_weekly_df :: "store \<Rightarrow> int \<Rightarrow> frame" where
  "load_weekly_df s user_id =
     (let d = load_daily_df s user_id in
      if empty d then ensure_weekly_cols DataFrame
      else
        (let w = \<lparr>columns = [''id'', ''user_id'', ''week_number'', ''start_date''],
                  rows = map Week_to_dict (filter (\<lambda>x. w_user_id x = user_id) (weeks s))\<rparr>
         in if ''week_id'' \<notin> set (columns d) then ensure_weekly_cols DataFrame
            else
              (let avg = groupby_week_id_agg d;
                   out = (if \<not> empty w then
                            drop_columns [''id'']
                              (merge_left avg
                                 (select_columns [''id'', ''week_number'', ''start_date''] w)
                                 ''week_id'' ''id'')
                          else assign_scalar ''start_date'' None
                                 (assign_scalar ''week_number'' None avg));
                   m = \<lparr>columns = [''id'', ''user_id'', ''week_id'', ''r_biceps_in'',
                                    ''l_biceps_in'', ''chest_in'', ''r_thigh_in'',
                                    ''l_thigh_in'', ''waist_navel_in''],
                        rows = map Measurement_to_dict
                                 (filter (\<lambda>x. m_user_id x = user_id) (measurements s))\<rparr>;
                   wb = \<lparr>columns = [''id'', ''user_id'', ''week_id'', ''sleep_issues'',
                                     ''hunger_issues'', ''stress_issues''],
                         rows = map Wellbeing_to_dict
                                  (filter (\<lambda>x. wb_user_id x = user_id) (wellbeings s))\<rparr>;
                   ad = \<lparr>columns = [''id'', ''user_id'', ''week_id'', ''diet_score'',
                                     ''workout_score''],
                         rows = map Adherence_to_dict
                                  (filter (\<lambda>x. ad_user_id x = user_id) (adherences s))\<rparr>;
                   out1 = fold merge_weekly [m, wb, ad] out;
                   out2 = (if ''week_number'' \<in> set (columns out1)
                           then sort_values ''week_number'' out1 else out1);
                   out3 = assign_series ''weekly_weight_loss''
                            (diff (column ''avg_weight_kg'' out2)) out2
               in ensure_weekly_cols out3)))"

section \<open>Dashboard (pages/1 Dashboard)\<close>

text \<open>\<open>steps_to_km\<close> of the dashboard works on a series, cell by cell; \<open>.round(2)\<close>
  rounds half to even at two decimals.\<close>

definition steps_to_km_series :: "rat option list \<Rightarrow> rat option list" where
  "steps_to_km_series series = map (map_option (\<lambda>s. (s * 8) / (1780 * 5))) series"

definition round_half_even :: "rat \<Rightarrow> int" where
  "round_half_even x =
     (let f = \<lfloor>x\<rfloor>; r = x - of_int f
      in if r < 1 / 2 then f else if 1 / 2 < r then f + 1
         else if even f then f else f + 1)"

definition round2 :: "rat \<Rightarrow> rat" where
  "round2 x = of_int (round_half_even (x * 100)) / 100"

section \<open>Example stores\<close>

text \<open>2025-01-06, a Monday, has the ordinal 739257.\<close>

definition empty_store :: store where
  "empty_store = \<lparr>users = [], weeks = [], dailies = [], measurements = [], wellbeings = [],
                   adherences = []\<rparr>"

definition user_store :: store where
  "user_store = fst (bootstrap_user empty_store)"

text \<open>Two users. User 1 has the weeks 1 and 2, user 2 the week 3, whose number is 1 as
  well.\<close>

definition two_user_store :: store where
  "two_user_store =
     \<lparr>users = [\<lparr>u_id = 1, name = ''You'', email = None, height_cm = None,
                 goal_weight_kg = None, units = ''metric''\<rparr>,
               \<lparr>u_id = 2, name = ''Other'', email = None, height_cm = None,
                 goal_weight_kg = None, units = ''metric''\<rparr>],
      weeks = [\<lparr>w_id = 1, w_user_id = 1, week_number = 1, start_date = 739257\<rparr>,
               \<lparr>w_id = 2, w_user_id = 1, week_number = 2, start_date = 739264\<rparr>,
               \<lparr>w_id = 3, w_user_id = 2, week_number = 1, start_date = 739257\<rparr>],
      dailies = [\<lparr>dm_id = 1, dm_user_id = 1, dm_date = 739257, dm_week_id = Some 1,
                   weight_kg = Some 90, steps = Some 12319, run_km = Some (12319 * 8 / 8900)\<rparr>,
                 \<lparr>dm_id = 2, dm_user_id = 1, dm_date = 739259, dm_week_id = Some 1,
                   weight_kg = Some 89, steps = None, run_km = None\<rparr>,
                 \<lparr>dm_id = 3, dm_user_id = 1, dm_date = 739264, dm_week_id = Some 2,
                   weight_kg = Some 88, steps = None, run_km = None\<rparr>,
                 \<lparr>dm_id = 4, dm_user_id = 1, dm_date = 739266, dm_week_id = Some 2,
                   weight_kg = None, steps = Some 8900, run_km = Some 8\<rparr>,
                 \<lparr>dm_id = 5, dm_user_id = 2, dm_date = 739258, dm_week_id = Some 3,
                   weight_kg = Some 70, steps = None, run_km = None\<rparr>],
      measurements = [\<lparr>m_id = 1, m_user_id = 1, m_week_id = 1, r_biceps_in = Some (25 / 2),
                        l_biceps_in = None, chest_in = Some 40, r_thigh_in = None,
                        l_thigh_in = None, waist_navel_in = Some (73 / 2)\<rparr>,
                      \<lparr>m_id = 2, m_user_id = 1, m_week_id = 2, r_biceps_in = Some 13,
                        l_biceps_in = None, chest_in = None, r_thigh_in = None,
                        l_thigh_in = None, waist_navel_in = Some 36\<rparr>,
                      \<lparr>m_id = 3, m_user_id = 2, m_week_id = 3, r_biceps_in = None,
                        l_biceps_in = None, chest_in = Some 38, r_thigh_in = None,
                        l_thigh_in = None, waist_navel_in = None\<rparr>],
      wellbeings = [\<lparr>wb_id = 1, wb_user_id = 1, wb_week_id = 1, sleep_issues = Some 1,
                      hunger_issues = Some 2, stress_issues = Some 1\<rparr>,
                    \<lparr>wb_id = 2, wb_user_id = 1, wb_week_id = 2, sleep_issues = Some 0,
                      hunger_issues = Some 0, stress_issues = Some 3\<rparr>],
      adherences = [\<lparr>ad_id = 1, ad_user_id = 1, ad_week_id = 1, diet_score = Some 9,
                      workout_score = Some 8\<rparr>,
                    \<lparr>ad_id = 2, ad_user_id = 1, ad_week_id = 2, diet_score = Some 10,
                      workout_score = Some 10\<rparr>]\<rparr>"

text \<open>Three weeks of one user whose average weights are 90, 88.5 and 88.5.\<close>

definition weights_store :: store where
  "weights_store =
     \<lparr>users = [\<lparr>u_id = 1, name = ''You'', email = None, height_cm = None,
                 goal_weight_kg = None, units = ''metric''\<rparr>],
      weeks = [\<lparr>w_id = 1, w_user_id = 1, week_number = 1, start_date = 739257\<rparr>,
               \<lparr>w_id = 2, w_user_id = 1, week_number = 2, start_date = 739264\<rparr>,
               \<lparr>w_id = 3, w_user_id = 1, week_number = 3, start_date = 739271\<rparr>],
      dailies = [\<lparr>dm_id = 1, dm_user_id = 1, dm_date = 739257, dm_week_id = Some 1,
                   weight_kg = Some (181 / 2), steps = Some 12319,
                   run_km = Some (12319 * 8 / 8900)\<rparr>,
                 \<lparr>dm_id = 2, dm_user_id = 1, dm_date = 739258, dm_week_id = Some 1,
                   weight_kg = Some (179 / 2), steps = None, run_km = None\<rparr>,
                 \<lparr>dm_id = 3, dm_user_id = 1, dm_date = 739264, dm_week_id = Some 2,
                   weight_kg = Some (177 / 2), steps = None, run_km = None\<rparr>,
                 \<lparr>dm_id = 4, dm_user_id = 1, dm_date = 739271, dm_week_id = Some 3,
                   weight_kg = Some 88, steps = None, run_km = None\<rparr>,
                 \<lparr>dm_id = 5, dm_user_id = 1, dm_date = 739272, dm_week_id = Some 3,
                   weight_kg = Some 89, steps = None, run_km = None\<rparr>],
      measurements = [\<lparr>m_id = 1, m_user_id = 1, m_week_id = 2, r_biceps_in = Some (25 / 2),
                        l_biceps_in = None, chest_in = Some 40, r_thigh_in = None,
                        l_thigh_in = None, waist_navel_in = Some (73 / 2)\<rparr>],
      wellbeings = [],
      adherences = [\<lparr>ad_id = 1, ad_user_id = 1, ad_week_id = 1, diet_score = Some 9,
                      workout_score = Some 8\<rparr>]\<rparr>"

text \<open>The template row of the import page, with week number 5.\<close>

definition example_csv :: csv where
  "example_csv =
     \<lparr>header = [''week_number'', ''start_date'', ''date'', ''weight_kg'', ''steps'',
                 ''r_biceps_in'', ''l_biceps_in'', ''chest_in'', ''r_thigh_in'', ''l_thigh_in'',
                 ''waist_navel_in'', ''sleep_issues'', ''hunger_issues'', ''stress_issues'',
                 ''diet_score'', ''workout_score''],
      body = [\<lparr>csv_week_number = Some 5, csv_start_date = 739257, csv_date = 739257,
                csv_weight_kg = Some (889 / 10), csv_steps = Some 12319,
                csv_r_biceps_in = Some (25 / 2), csv_l_biceps_in = Some (123 / 10),
                csv_chest_in = Some 40, csv_r_thigh_in = Some 22,
                csv_l_thigh_in = Some (109 / 5), csv_waist_navel_in = Some (73 / 2),
                csv_sleep_issues = Some 1, csv_hunger_issues = Some 2,
                csv_stress_issues = Some 1, csv_diet_score = Some 9,
                csv_workout_score = Some 8\<rparr>]\<rparr>"

text \<open>A store reached through the screens: two weeks resolved on the data-entry page,
  then the second week's start date edited on the manage-data page to the first week's
  Monday.\<close>

definition duplicate_week_store :: store where
  "duplicate_week_store =
     save_week_start_date
       (fst (get_or_create_week (fst (get_or_create_week user_store 1 739257)) 1 739264))
       2 739257"

text \<open>An edited grid row of the manage-data page for the daily row 1.\<close>

definition example_edit :: daily_edit where
  "example_edit = \<lparr>e_id = Some 1, e_date = 739257, e_week_id = None, e_weight_kg = Some 90,
                    e_steps = Some 12319\<rparr>"

section \<open>Auxiliary facts\<close>

lemma find_append_new: "find P xs = None \<Longrightarrow> P x \<Longrightarrow> find P (xs @ [x]) = Some x"
  by (induction xs) (auto split: if_splits)

lemma find_replace:
  "find P xs = Some y \<Longrightarrow> k y = c \<Longrightarrow> P z \<Longrightarrow>
   find P (map (\<lambda>r. if k r = c then z else r) xs) = Some z"
  by (induction xs) (auto split: if_splits)

lemma py_int_of_int: "py_int (of_int n) = n"
  by (simp add: py_int_def)

lemma floor_12319: "\<lfloor>(98552::rat) / 89\<rfloor> = 1107"
  by (simp add: floor_eq_iff)

lemma round2_12319: "round2 (12319 * 8 / 8900) = 1107 / 100"
  by (simp add: round2_def round_half_even_def Let_def floor_12319)

text \<open>The row that each of the three writers of \<open>DailyMetric\<close> leaves in the table.\<close>

lemma save_daily_entry_row:
  "\<exists>s' m dm. save_daily_entry s uid d w n = (s', m) \<and> dailies s' = dailies s @ [dm]
      \<and> steps dm = (if n \<noteq> 0 then Some n else None) \<and> run_km dm = Some (of_int n * 8 / 8900)"
  by (simp add: save_daily_entry_def steps_to_km_def Let_def get_or_create_week_def
           split: prod.splits option.splits)

lemma import_daily_row:
  "\<exists>dm. find (\<lambda>dm. dm_user_id dm = uid \<and> dm_date dm = csv_date row)
           (dailies (import_daily s uid wk row)) = Some dm
       \<and> steps dm = map_option py_int (csv_steps row)
       \<and> run_km dm = map_option (\<lambda>st. of_int st * 8 / 8900) (steps dm)"
proof (cases "find (\<lambda>dm. dm_user_id dm = uid \<and> dm_date dm = csv_date row) (dailies s)")
  case None
  then show ?thesis
    by (cases "csv_steps row")
       (simp_all add: import_daily_def put_daily_def Let_def find_append_new)
next
  case (Some a)
  then have a: "dm_user_id a = uid \<and> dm_date a = csv_date row"
    by (auto simp: find_Some_iff)
  show ?thesis using Some a
    by (cases "csv_steps row")
       (simp_all add: import_daily_def put_daily_def Let_def find_replace)
qed

lemma save_change_row:
  assumes "e_id r = Some i" "find (\<lambda>dm. dm_id dm = py_int i) (dailies s) = Some old"
  shows "\<exists>s' dm. save_change s r = Inr s'
       \<and> find (\<lambda>dm. dm_id dm = py_int i) (dailies s') = Some dm
       \<and> steps dm = map_option py_int (e_steps r)
       \<and> run_km dm = map_option (\<lambda>st. of_int st * 8 / 8900) (steps dm)"
proof -
  have a: "dm_id old = py_int i" using assms(2) by (auto simp: find_Some_iff)
  show ?thesis using assms a
    by (cases "e_steps r"; cases "e_week_id r")
       (simp_all add: save_change_def put_daily_def Let_def find_replace)
qed

text \<open>The newest week of a user: \<open>order_by(week_number.desc()).first()\<close> carries the
  largest week number.\<close>

lemma first_sort_key_max:
  assumes "(ws :: Week list) \<noteq> []"
  shows "\<exists>l. first (sort_key (\<lambda>w. - week_number w) ws) = Some l \<and> l \<in> set ws
           \<and> week_number l = Max (week_number ` set ws)"
proof -
  let ?f = "\<lambda>w::Week. - week_number w"
  have ne: "sort_key ?f ws \<noteq> []" using assms by (metis length_0_conv length_sort)
  then obtain l rest where lr: "sort_key ?f ws = l # rest" by (cases "sort_key ?f ws") auto
  have mem: "l \<in> set ws" using lr by (metis list.set_intros(1) set_sort)
  have "sorted (map ?f (l # rest))" using sorted_sort_key[of ?f ws] lr by simp
  then have "\<forall>y\<in>set rest. ?f l \<le> ?f y" by simp
  then have "\<forall>y\<in>set ws. week_number y \<le> week_number l"
    using lr by (metis (no_types, lifting) neg_le_iff_le order_refl set_ConsD set_sort)
  then have "Max (week_number ` set ws) = week_number l"
    using mem by (intro Max_eqI) auto
  then show ?thesis using lr mem by (simp add: first_def)
qed

lemma get_or_create_week_found:
  "find (\<lambda>w. w_user_id w = uid \<and> start_date w = monday_start d) (weeks s) = Some wk \<Longrightarrow>
   get_or_create_week s uid d = (s, wk)"
  by (simp add: get_or_create_week_def Let_def)

lemma get_or_create_week_then_found:
  "\<exists>wk. get_or_create_week s uid d = (fst (get_or_create_week s uid d), wk) \<and>
     find (\<lambda>w. w_user_id w = uid \<and> start_date w = monday_start d)
       (weeks (fst (get_or_create_week s uid d))) = Some wk"
proof (cases "find (\<lambda>w. w_user_id w = uid \<and> start_date w = monday_start d) (weeks s)")
  case None
  then show ?thesis
    by (simp add: get_or_create_week_def Let_def find_append_new)
next
  case (Some wk)
  then show ?thesis by (simp add: get_or_create_week_def Let_def)
qed

lemma get_or_create_week_count:
  "length (filter (\<lambda>w. w_user_id w = uid \<and> start_date w = monday_start d)
        (weeks (fst (get_or_create_week s uid d))))
   = max 1 (length (filter (\<lambda>w. w_user_id w = uid \<and> start_date w = monday_start d) (weeks s)))"
proof (cases "find (\<lambda>w. w_user_id w = uid \<and> start_date w = monday_start d) (weeks s)")
  case None
  then have "filter (\<lambda>w. w_user_id w = uid \<and> start_date w = monday_start d) (weeks s) = []"
    by (simp add: find_None_iff filter_empty_conv)
  then show ?thesis using None by (simp add: get_or_create_week_def Let_def)
next
  case (Some a)
  then have "a \<in> set (filter (\<lambda>w. w_user_id w = uid \<and> start_date w = monday_start d) (weeks s))"
    by (auto simp: find_Some_iff)
  then have "1 \<le> length (filter (\<lambda>w. w_user_id w = uid \<and> start_date w = monday_start d) (weeks s))"
    by (metis One_nat_def Suc_leI length_pos_if_in_set)
  then show ?thesis using Some by (simp add: get_or_create_week_def Let_def)
qed

text \<open>The bulk deletion by date, table by table.\<close>

lemma touched_iff:
  "wid \<in> set (touched_week_ids q) \<longleftrightarrow> (\<exists>dm\<in>set q. dm_week_id dm = Some wid)"
  by (force simp: touched_week_ids_def List.map_filter_def)

lemma empty_weeks_iff:
  "wid \<in> set (empty_weeks s wids) \<longleftrightarrow>
     wid \<in> set wids \<and> (\<forall>dm\<in>set (dailies s). dm_week_id dm \<noteq> Some wid)"
  by (auto simp: empty_weeks_def filter_empty_conv)

lemma empty_weeks_Nil: "empty_weeks s [] = []"
  by (simp add: empty_weeks_def)

lemma delete_by_date_tables:
  "measurements (fst (delete_by_date s ''DELETE'' d_from d_to a b)) =
     (if a then filter (\<lambda>m. m_week_id m \<notin> set (empty_weeks
           (s\<lparr>dailies := filter (\<lambda>dm. \<not> (d_from \<le> dm_date dm \<and> dm_date dm \<le> d_to)) (dailies s)\<rparr>)
           (touched_week_ids (filter (\<lambda>dm. d_from \<le> dm_date dm \<and> dm_date dm \<le> d_to) (dailies s)))))
        (measurements s) else measurements s)"
  "wellbeings (fst (delete_by_date s ''DELETE'' d_from d_to a b)) =
     (if a then filter (\<lambda>m. wb_week_id m \<notin> set (empty_weeks
           (s\<lparr>dailies := filter (\<lambda>dm. \<not> (d_from \<le> dm_date dm \<and> dm_date dm \<le> d_to)) (dailies s)\<rparr>)
           (touched_week_ids (filter (\<lambda>dm. d_from \<le> dm_date dm \<and> dm_date dm \<le> d_to) (dailies s)))))
        (wellbeings s) else wellbeings s)"
  "adherences (fst (delete_by_date s ''DELETE'' d_from d_to a b)) =
     (if a then filter (\<lambda>m. ad_week_id m \<notin> set (empty_weeks
           (s\<lparr>dailies := filter (\<lambda>dm. \<not> (d_from \<le> dm_date dm \<and> dm_date dm \<le> d_to)) (dailies s)\<rparr>)
           (touched_week_ids (filter (\<lambda>dm. d_from \<le> dm_date dm \<and> dm_date dm \<le> d_to) (dailies s)))))
        (adherences s) else adherences s)"
  "weeks (fst (delete_by_date s ''DELETE'' d_from d_to a b)) =
     (if a \<and> b then filter (\<lambda>m. w_id m \<notin> set (empty_weeks
           (s\<lparr>dailies := filter (\<lambda>dm. \<not> (d_from \<le> dm_date dm \<and> dm_date dm \<le> d_to)) (dailies s)\<rparr>)
           (touched_week_ids (filter (\<lambda>dm. d_from \<le> dm_date dm \<and> dm_date dm \<le> d_to) (dailies s)))))
        (weeks s) else weeks s)"
  by (simp_all add: delete_by_date_def Let_def delete_weekly_def delete_weeks_def empty_weeks_Nil)

lemma delete_by_date_dailies:
  "dailies (fst (delete_by_date s ''DELETE'' d_from d_to a b))
     = filter (\<lambda>dm. \<not> (d_from \<le> dm_date dm \<and> dm_date dm \<le> d_to)) (dailies s)"
  by (simp add: delete_by_date_def Let_def delete_weekly_def delete_weeks_def)

text \<open>Labels and cells of the frames.\<close>

lemma columns_assign_scalar: "set (columns (assign_scalar c v df)) = insert c (set (columns df))"
  by (auto simp: assign_scalar_def)

lemma columns_assign_series: "set (columns (assign_series c vs df)) = insert c (set (columns df))"
  by (auto simp: assign_series_def)

lemma columns_fold_empty_branch:
  "set (columns (fold (\<lambda>c out. assign_series c [] out) cs df)) = set cs \<union> set (columns df)"
  by (induction cs arbitrary: df) (auto simp: columns_assign_series)

lemma rows_fold_empty_branch:
  "rows df = [] \<Longrightarrow> rows (fold (\<lambda>c out. assign_series c [] out) cs df) = []"
  by (induction cs arbitrary: df) (auto simp: assign_series_def)

lemma columns_fold_fill:
  "set (columns (fold (\<lambda>c df. if c \<notin> set (columns df) then assign_scalar c None df else df) cs df))
     = set cs \<union> set (columns df)"
  by (induction cs arbitrary: df) (auto simp: columns_assign_scalar)

lemma column_fold_fill:
  "c \<in> set (columns df) \<Longrightarrow>
   column c (fold (\<lambda>c df. if c \<notin> set (columns df) then assign_scalar c None df else df) cs df)
     = column c df"
proof (induction cs arbitrary: df)
  case Nil
  then show ?case by simp
next
  case (Cons a cs)
  show ?case
  proof (cases "a \<in> set (columns df)")
    case True
    then show ?thesis using Cons by simp
  next
    case False
    then have ne: "a \<noteq> c" using Cons.prems by auto
    have 1: "c \<in> set (columns (assign_scalar a None df))"
      using Cons.prems by (simp add: columns_assign_scalar)
    have 2: "column c (assign_scalar a None df) = column c df"
      using ne by (simp add: column_def assign_scalar_def)
    show ?thesis using False Cons.IH[OF 1] 2 by simp
  qed
qed

lemma ensure_weekly_cols_columns:
  "set REQUIRED_WEEKLY_COLS \<subseteq> set (columns (ensure_weekly_cols df))"
  by (simp add: ensure_weekly_cols_def columns_fold_empty_branch columns_fold_fill)

lemma ensure_weekly_cols_DataFrame:
  "rows (ensure_weekly_cols DataFrame) = [] \<and> columns (ensure_weekly_cols DataFrame) = REQUIRED_WEEKLY_COLS"
proof -
  have e: "empty DataFrame" by (simp add: empty_def DataFrame_def)
  have "rows (ensure_weekly_cols DataFrame) = []"
    using e by (simp add: ensure_weekly_cols_def rows_fold_empty_branch DataFrame_def)
  moreover have "columns (ensure_weekly_cols DataFrame) = REQUIRED_WEEKLY_COLS"
    using e by (simp add: ensure_weekly_cols_def DataFrame_def REQUIRED_WEEKLY_COLS_def assign_series_def)
  ultimately show ?thesis by simp
qed

lemma ensure_weekly_cols_column:
  assumes "c \<in> set (columns df)"
  shows "column c (ensure_weekly_cols df) = column c df"
proof (cases "empty df")
  case True
  then have r: "rows df = []" using assms by (auto simp: empty_def)
  have "rows (fold (\<lambda>c out. assign_series c [] out) REQUIRED_WEEKLY_COLS DataFrame) = []"
    by (rule rows_fold_empty_branch) (simp add: DataFrame_def)
  then show ?thesis using True r by (simp add: ensure_weekly_cols_def column_def)
next
  case False
  then show ?thesis using assms by (simp add: ensure_weekly_cols_def column_fold_fill)
qed

lemma columns_merge_left: "set (columns l) \<subseteq> set (columns (merge_left l r a b))"
  by (simp add: merge_left_def)

lemma columns_merge_weekly: "set (columns out) \<subseteq> set (columns (merge_weekly fr out))"
  by (simp add: merge_weekly_def Let_def columns_merge_left)

lemma columns_fold_merge_weekly: "set (columns out) \<subseteq> set (columns (fold merge_weekly frs out))"
proof (induction frs arbitrary: out)
  case Nil
  then show ?case by simp
next
  case (Cons a frs)
  have "set (columns out) \<subseteq> set (columns (merge_weekly a out))" by (rule columns_merge_weekly)
  also have "\<dots> \<subseteq> set (columns (fold merge_weekly frs (merge_weekly a out)))" by (rule Cons.IH)
  finally show ?case by simp
qed

lemma length_diff_from: "length (diff_from p xs) = length xs"
  by (induction xs arbitrary: p) auto

lemma length_diff: "length (diff xs) = length xs"
  by (simp add: diff_def length_diff_from split: list.splits)

lemma column_assign_series_same:
  "length vs = length (rows df) \<Longrightarrow> column c (assign_series c vs df) = vs"
proof -
  assume a: "length vs = length (rows df)"
  have "map (\<lambda>r. r c) (map (\<lambda>(r, v). r(c := v)) (zip (rows df) vs)) = map snd (zip (rows df) vs)"
    by (simp add: split_def)
  also have "\<dots> = vs" using a by simp
  finally show ?thesis by (simp add: column_def assign_series_def)
qed

lemma column_assign_series_other:
  "length vs = length (rows df) \<Longrightarrow> c' \<noteq> c \<Longrightarrow> column c' (assign_series c vs df) = column c' df"
proof -
  assume a: "length vs = length (rows df)" "c' \<noteq> c"
  have "map (\<lambda>r. r c') (map (\<lambda>(r, v). r(c := v)) (zip (rows df) vs)) = map (\<lambda>p. (fst p) c') (zip (rows df) vs)"
    using a(2) by (simp add: split_def)
  also have "\<dots> = map (\<lambda>r. r c') (map fst (zip (rows df) vs))" by simp
  also have "\<dots> = map (\<lambda>r. r c') (rows df)" using a(1) by simp
  finally show ?thesis by (simp add: column_def assign_series_def)
qed

lemma diff_from_nth:
  "i < length xs \<Longrightarrow> diff_from p xs ! i = minus_opt (xs ! i) (if i = 0 then p else xs ! (i - 1))"
proof (induction xs arbitrary: p i)
  case Nil
  then show ?case by simp
next
  case (Cons a xs)
  show ?case
  proof (cases i)
    case 0
    then show ?thesis by simp
  next
    case (Suc j)
    then have "j < length xs" using Cons.prems by simp
    from Cons.IH[OF this, of a] show ?thesis using Suc by (cases j) simp_all
  qed
qed

lemma diff_nth:
  "i < length xs \<Longrightarrow> diff xs ! i = (if i = 0 then None else minus_opt (xs ! i) (xs ! (i - 1)))"
proof (cases xs)
  case Nil
  then show "i < length xs \<Longrightarrow> ?thesis" by simp
next
  case (Cons a rest)
  assume "i < length xs"
  then show ?thesis using Cons
    by (cases i) (auto simp: diff_def diff_from_nth)
qed

lemma load_weekly_df_cases:
  "load_weekly_df s user_id = ensure_weekly_cols DataFrame
   \<or> (\<exists>out2. load_weekly_df s user_id =
          ensure_weekly_cols (assign_series ''weekly_weight_loss'' (diff (column ''avg_weight_kg'' out2)) out2)
        \<and> ''avg_weight_kg'' \<in> set (columns out2) \<and> ''week_number'' \<in> set (columns out2)
        \<and> sorted (map na_last (column ''week_number'' out2)))"
proof -
  let ?d = "load_daily_df s user_id"
  let ?w = "\<lparr>columns = [''id'', ''user_id'', ''week_number'', ''start_date''],
            rows = map Week_to_dict (filter (\<lambda>x. w_user_id x = user_id) (weeks s))\<rparr>"
  let ?avg = "groupby_week_id_agg ?d"
  let ?out = "(if \<not> empty ?w then
                 drop_columns [''id'']
                   (merge_left ?avg (select_columns [''id'', ''week_number'', ''start_date''] ?w)
                      ''week_id'' ''id'')
               else assign_scalar ''start_date'' None (assign_scalar ''week_number'' None ?avg))"
  let ?m = "\<lparr>columns = [''id'', ''user_id'', ''week_id'', ''r_biceps_in'',
                         ''l_biceps_in'', ''chest_in'', ''r_thigh_in'',
                         ''l_thigh_in'', ''waist_navel_in''],
             rows = map Measurement_to_dict (filter (\<lambda>x. m_user_id x = user_id) (measurements s))\<rparr>"
  let ?wb = "\<lparr>columns = [''id'', ''user_id'', ''week_id'', ''sleep_issues'',
                          ''hunger_issues'', ''stress_issues''],
              rows = map Wellbeing_to_dict (filter (\<lambda>x. wb_user_id x = user_id) (wellbeings s))\<rparr>"
  let ?ad = "\<lparr>columns = [''id'', ''user_id'', ''week_id'', ''diet_score'', ''workout_score''],
              rows = map Adherence_to_dict (filter (\<lambda>x. ad_user_id x = user_id) (adherences s))\<rparr>"
  let ?out1 = "fold merge_weekly [?m, ?wb, ?ad] ?out"
  let ?out2 = "sort_values ''week_number'' ?out1"
  have c_out: "''avg_weight_kg'' \<in> set (columns ?out) \<and> ''week_number'' \<in> set (columns ?out)"
    by (simp add: drop_columns_def merge_left_def select_columns_def groupby_week_id_agg_def
          assign_scalar_def)
  have "set (columns ?out) \<subseteq> set (columns ?out1)" by (rule columns_fold_merge_weekly)
  then have c_out1: "''avg_weight_kg'' \<in> set (columns ?out1) \<and> ''week_number'' \<in> set (columns ?out1)"
    using c_out by blast
  have c_out2: "''avg_weight_kg'' \<in> set (columns ?out2) \<and> ''week_number'' \<in> set (columns ?out2)"
    using c_out1 by (simp add: sort_values_def)
  have srt: "sorted (map na_last (column ''week_number'' ?out2))"
    using sorted_sort_key[of "\<lambda>r. na_last (r ''week_number'')" "rows ?out1"]
    by (simp add: sort_values_def column_def comp_def)
  show ?thesis
  proof (cases "empty ?d \<or> ''week_id'' \<notin> set (columns ?d)")
    case True
    then show ?thesis by (auto simp: load_weekly_df_def Let_def)
  next
    case False
    then have "load_weekly_df s user_id =
          ensure_weekly_cols (assign_series ''weekly_weight_loss'' (diff (column ''avg_weight_kg'' ?out2)) ?out2)"
      using c_out1 by (simp add: load_weekly_df_def Let_def)
    then show ?thesis using c_out2 srt by blast
  qed
qed


section \<open>Profile bootstrap\<close>

text \<open>
  C5. On a store with no User row, \<open>bootstrap_user\<close> creates exactly one row: name
  "You", no email, no height, no goal weight, units "metric". Run again on the store it
  left, it changes nothing and returns the same user, so the count of users stays 1. On
  any store \<open>t\<close> that has a User row it leaves the store as it is.
\<close>

theorem bootstrap_user_once:
  "(users s = [] \<longrightarrow>
      users (fst (bootstrap_user s)) =
        [\<lparr>u_id = 1, name = ''You'', email = None, height_cm = None, goal_weight_kg = None,
          units = ''metric''\<rparr>]
      \<and> snd (bootstrap_user s) =
          \<lparr>u_id = 1, name = ''You'', email = None, height_cm = None, goal_weight_kg = None,
           units = ''metric''\<rparr>
      \<and> fst (bootstrap_user (fst (bootstrap_user s))) = fst (bootstrap_user s)
      \<and> snd (bootstrap_user (fst (bootstrap_user s))) = snd (bootstrap_user s)
      \<and> length (users (fst (bootstrap_user (fst (bootstrap_user s))))) = 1)
   \<and> (users t \<noteq> [] \<longrightarrow> fst (bootstrap_user t) = t \<and> snd (bootstrap_user t) = hd (users t))"
  by (auto simp: bootstrap_user_def first_def next_id_def Let_def split: list.splits)

section \<open>Guarded bulk deletion\<close>

text \<open>
  C3. When the confirmation text is not exactly "DELETE", the deletion by date range and
  the deletion by week numbers both return the store as it was (so no table loses a row)
  together with the error message.
\<close>

theorem guarded_deletion:
  "confirm \<noteq> ''DELETE'' \<Longrightarrow>
     delete_by_date s confirm d_from d_to also_delete_weekly delete_empty_weeks
       = (s, Error ''Please type DELETE to confirm.'')
   \<and> delete_by_week s confirm wk_from wk_to also_delete_weekly2 delete_weeks2
       = (s, Error ''Please type DELETE to confirm.'')"
  by (simp add: delete_by_date_def delete_by_week_def)

text \<open>
  C4. After a confirmed deletion by date range: a week \<open>wid\<close> that had daily rows, all
  of them dated inside the range, is among the weeks the loop finds empty; with "also
  remove weekly check-ins" no Measurement, Wellbeing or Adherence row of it is left, and
  with "delete empty weeks" as well no Week row of it is left. A week \<open>wid'\<close> with a
  daily row dated outside the range is not among the empty weeks and keeps all its
  weekly rows and its Week row, whatever the options.
\<close>

theorem empty_week_cascade:
  "((\<exists>dm\<in>set (dailies s). dm_week_id dm = Some wid)
      \<and> (\<forall>dm\<in>set (dailies s). dm_week_id dm = Some wid \<longrightarrow> d_from \<le> dm_date dm \<and> dm_date dm \<le> d_to)
     \<longrightarrow> wid \<in> set (empty_weeks
             (s\<lparr>dailies := filter (\<lambda>dm. \<not> (d_from \<le> dm_date dm \<and> dm_date dm \<le> d_to)) (dailies s)\<rparr>)
             (touched_week_ids (filter (\<lambda>dm. d_from \<le> dm_date dm \<and> dm_date dm \<le> d_to) (dailies s))))
       \<and> (also_delete_weekly \<longrightarrow>
             (\<forall>m\<in>set (measurements (fst (delete_by_date s ''DELETE'' d_from d_to also_delete_weekly delete_empty_weeks))). m_week_id m \<noteq> wid)
           \<and> (\<forall>m\<in>set (wellbeings (fst (delete_by_date s ''DELETE'' d_from d_to also_delete_weekly delete_empty_weeks))). wb_week_id m \<noteq> wid)
           \<and> (\<forall>m\<in>set (adherences (fst (delete_by_date s ''DELETE'' d_from d_to also_delete_weekly delete_empty_weeks))). ad_week_id m \<noteq> wid))
       \<and> (also_delete_weekly \<and> delete_empty_weeks \<longrightarrow>
             (\<forall>w\<in>set (weeks (fst (delete_by_date s ''DELETE'' d_from d_to also_delete_weekly delete_empty_weeks))). w_id w \<noteq> wid)))
   \<and> ((\<exists>dm\<in>set (dailies s). dm_week_id dm = Some wid' \<and> \<not> (d_from \<le> dm_date dm \<and> dm_date dm \<le> d_to))
     \<longrightarrow> wid' \<notin> set (empty_weeks
             (s\<lparr>dailies := filter (\<lambda>dm. \<not> (d_from \<le> dm_date dm \<and> dm_date dm \<le> d_to)) (dailies s)\<rparr>)
             (touched_week_ids (filter (\<lambda>dm. d_from \<le> dm_date dm \<and> dm_date dm \<le> d_to) (dailies s))))
       \<and> filter (\<lambda>m. m_week_id m = wid') (measurements (fst (delete_by_date s ''DELETE'' d_from d_to also_delete_weekly delete_empty_weeks)))
           = filter (\<lambda>m. m_week_id m = wid') (measurements s)
       \<and> filter (\<lambda>m. wb_week_id m = wid') (wellbeings (fst (delete_by_date s ''DELETE'' d_from d_to also_delete_weekly delete_empty_weeks)))
           = filter (\<lambda>m. wb_week_id m = wid') (wellbeings s)
       \<and> filter (\<lambda>m. ad_week_id m = wid') (adherences (fst (delete_by_date s ''DELETE'' d_from d_to also_delete_weekly delete_empty_weeks)))
           = filter (\<lambda>m. ad_week_id m = wid') (adherences s)
       \<and> filter (\<lambda>w. w_id w = wid') (weeks (fst (delete_by_date s ''DELETE'' d_from d_to also_delete_weekly delete_empty_weeks)))
           = filter (\<lambda>w. w_id w = wid') (weeks s))"
  (is "(?A \<longrightarrow> ?EMP \<and> ?WK \<and> ?W) \<and> (?B \<longrightarrow> ?NEMP \<and> ?M1 \<and> ?M2 \<and> ?M3 \<and> ?M4)")
proof (intro conjI impI)
  assume a: ?A
  show e: ?EMP using a by (auto simp: empty_weeks_iff touched_iff)
  { assume also_delete_weekly
    then show "\<forall>m\<in>set (measurements (fst (delete_by_date s ''DELETE'' d_from d_to also_delete_weekly delete_empty_weeks))). m_week_id m \<noteq> wid"
      using e by (auto simp: delete_by_date_tables)
  }
  { assume also_delete_weekly
    then show "\<forall>m\<in>set (wellbeings (fst (delete_by_date s ''DELETE'' d_from d_to also_delete_weekly delete_empty_weeks))). wb_week_id m \<noteq> wid"
      using e by (auto simp: delete_by_date_tables)
  }
  { assume also_delete_weekly
    then show "\<forall>m\<in>set (adherences (fst (delete_by_date s ''DELETE'' d_from d_to also_delete_weekly delete_empty_weeks))). ad_week_id m \<noteq> wid"
      using e by (auto simp: delete_by_date_tables)
  }
  { assume "also_delete_weekly \<and> delete_empty_weeks"
    then show "\<forall>w\<in>set (weeks (fst (delete_by_date s ''DELETE'' d_from d_to also_delete_weekly delete_empty_weeks))). w_id w \<noteq> wid"
      using e by (auto simp: delete_by_date_tables)
  }
next
  assume b: ?B
  show ne: ?NEMP using b by (auto simp: empty_weeks_iff)
  show ?M1 using ne by (auto simp: delete_by_date_tables intro!: filter_cong)
  show ?M2 using ne by (auto simp: delete_by_date_tables intro!: filter_cong)
  show ?M3 using ne by (auto simp: delete_by_date_tables intro!: filter_cong)
  show ?M4 using ne by (auto simp: delete_by_date_tables intro!: filter_cong)
qed

text \<open>
  C10. The bulk deletions are not scoped to a user. A confirmed deletion by date range
  leaves exactly the daily rows dated outside the range, so every daily row dated inside
  it is gone whatever its \<open>user_id\<close>. A confirmed deletion by week numbers takes every
  week whose number is in the range, whatever its \<open>user_id\<close>: no daily row linked to
  such a week is left, and with "delete the Week rows" the week itself is gone.
\<close>

theorem bulk_deletion_not_user_scoped:
  "dailies (fst (delete_by_date s ''DELETE'' d_from d_to also_delete_weekly delete_empty_weeks))
     = filter (\<lambda>dm. \<not> (d_from \<le> dm_date dm \<and> dm_date dm \<le> d_to)) (dailies s)
   \<and> (\<forall>dm\<in>set (dailies s). d_from \<le> dm_date dm \<and> dm_date dm \<le> d_to \<longrightarrow>
         dm \<notin> set (dailies (fst (delete_by_date s ''DELETE'' d_from d_to also_delete_weekly delete_empty_weeks))))
   \<and> (\<forall>w\<in>set (weeks s). wk_from \<le> week_number w \<and> week_number w \<le> wk_to \<longrightarrow>
         (\<forall>dm\<in>set (dailies (fst (delete_by_week s ''DELETE'' wk_from wk_to also_delete_weekly2 delete_weeks2))).
             dm_week_id dm \<noteq> Some (w_id w))
         \<and> (delete_weeks2 \<longrightarrow>
              w \<notin> set (weeks (fst (delete_by_week s ''DELETE'' wk_from wk_to also_delete_weekly2 delete_weeks2)))))"
proof (intro conjI)
  show "dailies (fst (delete_by_date s ''DELETE'' d_from d_to also_delete_weekly delete_empty_weeks))
     = filter (\<lambda>dm. \<not> (d_from \<le> dm_date dm \<and> dm_date dm \<le> d_to)) (dailies s)"
    by (rule delete_by_date_dailies)
  show "\<forall>dm\<in>set (dailies s). d_from \<le> dm_date dm \<and> dm_date dm \<le> d_to \<longrightarrow>
         dm \<notin> set (dailies (fst (delete_by_date s ''DELETE'' d_from d_to also_delete_weekly delete_empty_weeks)))"
    unfolding delete_by_date_dailies by simp
  show "\<forall>w\<in>set (weeks s). wk_from \<le> week_number w \<and> week_number w \<le> wk_to \<longrightarrow>
         (\<forall>dm\<in>set (dailies (fst (delete_by_week s ''DELETE'' wk_from wk_to also_delete_weekly2 delete_weeks2))).
             dm_week_id dm \<noteq> Some (w_id w))
         \<and> (delete_weeks2 \<longrightarrow>
              w \<notin> set (weeks (fst (delete_by_week s ''DELETE'' wk_from wk_to also_delete_weekly2 delete_weeks2))))"
    by (auto simp: delete_by_week_def Let_def delete_weekly_def delete_weeks_def filter_empty_conv
             split: option.splits)
qed

section \<open>Derived kilometres\<close>

text \<open>
  C1, at the failing input. "Save daily entry" with the steps input 0 appends a row whose
  \<open>steps\<close> is absent and whose \<open>run_km\<close> is present, with the value 0: \<open>km_val\<close> is
  computed from the input before the zero is turned into an absent \<open>steps\<close>. The CSV
  import and the manage-data save derive \<open>run_km\<close> from the stored \<open>steps\<close> and store
  it absent when \<open>steps\<close> is absent (\<open>import_daily_row\<close>, \<open>save_change_row\<close>).
\<close>

theorem daily_save_zero_steps_run_km:
  "steps (last (dailies (fst (save_daily_entry s user_id d weight 0)))) = None
   \<and> run_km (last (dailies (fst (save_daily_entry s user_id d weight 0)))) = Some 0"
  by (simp add: save_daily_entry_def steps_to_km_def Let_def split: prod.splits)

text \<open>
  C7. The derived kilometres of a step count \<open>s\<close> are \<open>s * 8 / 8900\<close> on every screen:
  \<open>steps_to_km\<close> of the data-entry page, the series version of the dashboard, the row
  written by "Save daily entry", the row written by the CSV import for a steps cell
  \<open>n\<close>, and the row written by the manage-data save for an edited steps cell \<open>n\<close>
  (when the edited row exists). 12319 steps give 11.07 km after rounding to two
  decimals. Floats are exact rationals here; in binary floating point
  \<open>1780.0 * 5.0\<close> is exactly \<open>8900.0\<close> as well.
\<close>

theorem steps_to_km_exact:
  "steps_to_km (Some x) = Some (x * 8 / 8900)
   \<and> steps_to_km_series [Some x] = [Some (x * 8 / 8900)]
   \<and> run_km (last (dailies (fst (save_daily_entry s user_id d weight n))))
       = Some (of_int n * 8 / 8900)
   \<and> (\<exists>dm. find (\<lambda>dm. dm_user_id dm = user_id \<and> dm_date dm = csv_date row)
              (dailies (import_daily s user_id wk (row\<lparr>csv_steps := Some (of_int n)\<rparr>))) = Some dm
          \<and> run_km dm = Some (of_int n * 8 / 8900))
   \<and> (e_id r = Some i \<and> find (\<lambda>dm. dm_id dm = py_int i) (dailies s) = Some old
        \<and> e_steps r = Some (of_int n) \<longrightarrow>
        (\<exists>s' dm. save_change s r = Inr s'
           \<and> find (\<lambda>dm. dm_id dm = py_int i) (dailies s') = Some dm
           \<and> run_km dm = Some (of_int n * 8 / 8900)))
   \<and> round2 (12319 * 8 / 8900) = 1107 / 100"
proof (intro conjI impI)
  show "steps_to_km (Some x) = Some (x * 8 / 8900)" by (simp add: steps_to_km_def)
  show "steps_to_km_series [Some x] = [Some (x * 8 / 8900)]"
    by (simp add: steps_to_km_series_def)
  show "run_km (last (dailies (fst (save_daily_entry s user_id d weight n))))
          = Some (of_int n * 8 / 8900)"
    using save_daily_entry_row[of s user_id d weight n] by auto
  show "\<exists>dm. find (\<lambda>dm. dm_user_id dm = user_id \<and> dm_date dm = csv_date row)
              (dailies (import_daily s user_id wk (row\<lparr>csv_steps := Some (of_int n)\<rparr>))) = Some dm
          \<and> run_km dm = Some (of_int n * 8 / 8900)"
    using import_daily_row[of user_id "row\<lparr>csv_steps := Some (of_int n)\<rparr>" s wk]
    by (auto simp: py_int_of_int)
  show "round2 (12319 * 8 / 8900) = 1107 / 100" by (rule round2_12319)
next
  assume h: "e_id r = Some i \<and> find (\<lambda>dm. dm_id dm = py_int i) (dailies s) = Some old
        \<and> e_steps r = Some (of_int n)"
  then show "\<exists>s' dm. save_change s r = Inr s'
           \<and> find (\<lambda>dm. dm_id dm = py_int i) (dailies s') = Some dm
           \<and> run_km dm = Some (of_int n * 8 / 8900)"
    using save_change_row[of r i s old] by (auto simp: py_int_of_int)
qed

section \<open>Week resolution\<close>

text \<open>
  C2, as the code has it. When the user has no week for the Monday of the date,
  \<open>get_or_create_week\<close> appends one week for that Monday whose number is 1 if the user
  has no week at all, and otherwise one more than the largest week number among the
  user's weeks; the start dates of the existing weeks play no part. The CSV import
  creates a missing week with the week number written in the row, not with the next
  number.
\<close>

theorem week_numbering:
  "(find (\<lambda>w. w_user_id w = user_id \<and> start_date w = monday_start d) (weeks s) = None \<longrightarrow>
      weeks (fst (get_or_create_week s user_id d))
        = weeks s @ [snd (get_or_create_week s user_id d)]
    \<and> w_user_id (snd (get_or_create_week s user_id d)) = user_id
    \<and> start_date (snd (get_or_create_week s user_id d)) = monday_start d
    \<and> week_number (snd (get_or_create_week s user_id d)) =
        (if filter (\<lambda>w. w_user_id w = user_id) (weeks s) = [] then 1
         else Max (week_number ` set (filter (\<lambda>w. w_user_id w = user_id) (weeks s))) + 1))
   \<and> (find (\<lambda>w. w_user_id w = user_id \<and> start_date w = csv_start_date row) (weeks s) = None
        \<and> csv_week_number row = Some n \<longrightarrow>
        import_week s user_id row =
          Inr (s\<lparr>weeks := weeks s @ [\<lparr>w_id = next_id (map w_id (weeks s)), w_user_id = user_id,
                                       week_number = py_int n, start_date = csv_start_date row\<rparr>]\<rparr>,
               \<lparr>w_id = next_id (map w_id (weeks s)), w_user_id = user_id,
                week_number = py_int n, start_date = csv_start_date row\<rparr>, True))"
proof (intro conjI impI)
  assume a: "find (\<lambda>w. w_user_id w = user_id \<and> start_date w = monday_start d) (weeks s) = None"
  show "weeks (fst (get_or_create_week s user_id d))
          = weeks s @ [snd (get_or_create_week s user_id d)]"
    using a by (simp add: get_or_create_week_def Let_def)
  show "w_user_id (snd (get_or_create_week s user_id d)) = user_id"
    using a by (simp add: get_or_create_week_def Let_def)
  show "start_date (snd (get_or_create_week s user_id d)) = monday_start d"
    using a by (simp add: get_or_create_week_def Let_def)
  show "week_number (snd (get_or_create_week s user_id d)) =
        (if filter (\<lambda>w. w_user_id w = user_id) (weeks s) = [] then 1
         else Max (week_number ` set (filter (\<lambda>w. w_user_id w = user_id) (weeks s))) + 1)"
  proof (cases "filter (\<lambda>w. w_user_id w = user_id) (weeks s) = []")
    case True
    then show ?thesis using a by (simp add: get_or_create_week_def Let_def first_def)
  next
    case False
    from first_sort_key_max[OF False] obtain l where
      "first (sort_key (\<lambda>w. - week_number w) (filter (\<lambda>w. w_user_id w = user_id) (weeks s)))
         = Some l"
      "week_number l = Max (week_number ` set (filter (\<lambda>w. w_user_id w = user_id) (weeks s)))"
      by blast
    then show ?thesis using a False by (simp add: get_or_create_week_def Let_def)
  qed
next
  assume "find (\<lambda>w. w_user_id w = user_id \<and> start_date w = csv_start_date row) (weeks s) = None
        \<and> csv_week_number row = Some n"
  then show "import_week s user_id row =
          Inr (s\<lparr>weeks := weeks s @ [\<lparr>w_id = next_id (map w_id (weeks s)), w_user_id = user_id,
                                       week_number = py_int n, start_date = csv_start_date row\<rparr>]\<rparr>,
               \<lparr>w_id = next_id (map w_id (weeks s)), w_user_id = user_id,
                week_number = py_int n, start_date = csv_start_date row\<rparr>, True)"
    by (simp add: import_week_def Let_def)
qed

text \<open>
  C8, as the code has it. Resolving the week of a date twice in succession returns the
  same week both times, and the second resolution leaves the store as the first left
  it. The number of the user's Week rows for that Monday afterwards is the number
  before, or 1 when there was none: exactly one when there was at most one before.
\<close>

theorem week_resolution_idempotent:
  "snd (get_or_create_week (fst (get_or_create_week s user_id d)) user_id d)
     = snd (get_or_create_week s user_id d)
   \<and> fst (get_or_create_week (fst (get_or_create_week s user_id d)) user_id d)
     = fst (get_or_create_week s user_id d)
   \<and> length (filter (\<lambda>w. w_user_id w = user_id \<and> start_date w = monday_start d)
        (weeks (fst (get_or_create_week (fst (get_or_create_week s user_id d)) user_id d))))
     = max 1 (length (filter (\<lambda>w. w_user_id w = user_id \<and> start_date w = monday_start d) (weeks s)))
   \<and> (length (filter (\<lambda>w. w_user_id w = user_id \<and> start_date w = monday_start d) (weeks s)) \<le> 1
        \<longrightarrow> length (filter (\<lambda>w. w_user_id w = user_id \<and> start_date w = monday_start d)
              (weeks (fst (get_or_create_week (fst (get_or_create_week s user_id d)) user_id d)))) = 1)"
proof -
  obtain wk where w: "get_or_create_week s user_id d = (fst (get_or_create_week s user_id d), wk)"
     "find (\<lambda>w. w_user_id w = user_id \<and> start_date w = monday_start d)
       (weeks (fst (get_or_create_week s user_id d))) = Some wk"
    using get_or_create_week_then_found by blast
  have 2: "get_or_create_week (fst (get_or_create_week s user_id d)) user_id d
             = (fst (get_or_create_week s user_id d), wk)"
    using get_or_create_week_found[OF w(2)] .
  have 3: "snd (get_or_create_week s user_id d) = wk" using w(1) by (metis snd_conv)
  show ?thesis using 2 3 get_or_create_week_count[of user_id d s] by simp
qed

section \<open>The weekly frame\<close>

text \<open>
  C6. For every store and user id the frame of \<open>load_weekly_df\<close> has each of the labels
  week_id, week_number, start_date, avg_weight_kg, avg_steps, weekly_weight_loss,
  diet_score, workout_score, sleep_issues, hunger_issues, stress_issues, waist_navel_in,
  chest_in, r_biceps_in, l_biceps_in, r_thigh_in and l_thigh_in among its columns. When
  the user has no daily row the frame has no rows, and its columns are exactly these.
\<close>

theorem load_weekly_df_columns:
  "set [''week_id'', ''week_number'', ''start_date'', ''avg_weight_kg'', ''avg_steps'',
        ''weekly_weight_loss'', ''diet_score'', ''workout_score'', ''sleep_issues'',
        ''hunger_issues'', ''stress_issues'', ''waist_navel_in'', ''chest_in'', ''r_biceps_in'',
        ''l_biceps_in'', ''r_thigh_in'', ''l_thigh_in'']
     \<subseteq> set (columns (load_weekly_df s user_id))
   \<and> (filter (\<lambda>dm. dm_user_id dm = user_id) (dailies s) = [] \<longrightarrow>
        rows (load_weekly_df s user_id) = []
        \<and> set (columns (load_weekly_df s user_id)) =
            set [''week_id'', ''week_number'', ''start_date'', ''avg_weight_kg'', ''avg_steps'',
                 ''weekly_weight_loss'', ''diet_score'', ''workout_score'', ''sleep_issues'',
                 ''hunger_issues'', ''stress_issues'', ''waist_navel_in'', ''chest_in'',
                 ''r_biceps_in'', ''l_biceps_in'', ''r_thigh_in'', ''l_thigh_in''])"
proof (intro conjI impI)
  have "set REQUIRED_WEEKLY_COLS \<subseteq> set (columns (load_weekly_df s user_id))"
    using load_weekly_df_cases[of s user_id] ensure_weekly_cols_columns by metis
  then show "set [''week_id'', ''week_number'', ''start_date'', ''avg_weight_kg'', ''avg_steps'',
        ''weekly_weight_loss'', ''diet_score'', ''workout_score'', ''sleep_issues'',
        ''hunger_issues'', ''stress_issues'', ''waist_navel_in'', ''chest_in'', ''r_biceps_in'',
        ''l_biceps_in'', ''r_thigh_in'', ''l_thigh_in'']
     \<subseteq> set (columns (load_weekly_df s user_id))"
    by (simp add: REQUIRED_WEEKLY_COLS_def)
next
  assume "filter (\<lambda>dm. dm_user_id dm = user_id) (dailies s) = []"
  then have "empty (load_daily_df s user_id)" by (simp add: load_daily_df_def empty_def)
  then have e: "load_weekly_df s user_id = ensure_weekly_cols DataFrame"
    by (simp add: load_weekly_df_def Let_def)
  show "rows (load_weekly_df s user_id) = []"
    using e ensure_weekly_cols_DataFrame by simp
  have "columns (load_weekly_df s user_id) = REQUIRED_WEEKLY_COLS"
    using e ensure_weekly_cols_DataFrame by simp
  then show "set (columns (load_weekly_df s user_id)) =
            set [''week_id'', ''week_number'', ''start_date'', ''avg_weight_kg'', ''avg_steps'',
                 ''weekly_weight_loss'', ''diet_score'', ''workout_score'', ''sleep_issues'',
                 ''hunger_issues'', ''stress_issues'', ''waist_navel_in'', ''chest_in'',
                 ''r_biceps_in'', ''l_biceps_in'', ''r_thigh_in'', ''l_thigh_in'']"
    by (simp add: REQUIRED_WEEKLY_COLS_def)
qed

text \<open>
  C9. In the frame of \<open>load_weekly_df\<close> the rows are in week-number order (an absent
  week number last), the column weekly_weight_loss is the first difference of the
  column avg_weight_kg: absent in the first row, and in every later row that row's
  avg_weight_kg minus the avg_weight_kg of the row before it (absent when either is
  absent). The averages 90, 88.5, 88.5 give absent, -1.5, 0.
\<close>

theorem weekly_weight_loss_diff:
  "sorted (map na_last (column ''week_number'' (load_weekly_df s user_id)))
   \<and> column ''weekly_weight_loss'' (load_weekly_df s user_id)
       = diff (column ''avg_weight_kg'' (load_weekly_df s user_id))
   \<and> (\<forall>i < length (rows (load_weekly_df s user_id)).
         (rows (load_weekly_df s user_id) ! i) ''weekly_weight_loss'' =
           (if i = 0 then None
            else minus_opt ((rows (load_weekly_df s user_id) ! i) ''avg_weight_kg'')
                           ((rows (load_weekly_df s user_id) ! (i - 1)) ''avg_weight_kg'')))
   \<and> diff [Some 90, Some (177 / 2), Some (177 / 2)] = [None, Some (- 3 / 2), Some 0]"
proof -
  let ?f = "load_weekly_df s user_id"
  have main: "column ''weekly_weight_loss'' ?f = diff (column ''avg_weight_kg'' ?f)
      \<and> sorted (map na_last (column ''week_number'' ?f))"
  proof -
    from load_weekly_df_cases[of s user_id] show ?thesis
    proof
      assume "load_weekly_df s user_id = ensure_weekly_cols DataFrame"
      then have "rows (load_weekly_df s user_id) = []"
        using ensure_weekly_cols_DataFrame by simp
      then show ?thesis by (simp add: column_def diff_def)
    next
      assume "\<exists>out2. load_weekly_df s user_id =
            ensure_weekly_cols (assign_series ''weekly_weight_loss''
                                  (diff (column ''avg_weight_kg'' out2)) out2)
          \<and> ''avg_weight_kg'' \<in> set (columns out2) \<and> ''week_number'' \<in> set (columns out2)
          \<and> sorted (map na_last (column ''week_number'' out2))"
      then obtain out2 where o: "load_weekly_df s user_id =
            ensure_weekly_cols (assign_series ''weekly_weight_loss''
                                  (diff (column ''avg_weight_kg'' out2)) out2)"
          "''avg_weight_kg'' \<in> set (columns out2)" "''week_number'' \<in> set (columns out2)"
          "sorted (map na_last (column ''week_number'' out2))" by blast
      let ?vs = "diff (column ''avg_weight_kg'' out2)"
      let ?out3 = "assign_series ''weekly_weight_loss'' ?vs out2"
      have len: "length ?vs = length (rows out2)" by (simp add: length_diff column_def)
      have cols: "''weekly_weight_loss'' \<in> set (columns ?out3)"
          "''avg_weight_kg'' \<in> set (columns ?out3)" "''week_number'' \<in> set (columns ?out3)"
        using o(2,3) by (simp_all add: columns_assign_series)
      have 1: "column ''weekly_weight_loss'' (load_weekly_df s user_id) = ?vs"
        using o(1) ensure_weekly_cols_column[OF cols(1)] column_assign_series_same[OF len]
        by simp
      have 2: "column ''avg_weight_kg'' (load_weekly_df s user_id) = column ''avg_weight_kg'' out2"
        using o(1) ensure_weekly_cols_column[OF cols(2)]
          column_assign_series_other[OF len, of "''avg_weight_kg''" "''weekly_weight_loss''"]
        by simp
      have 3: "column ''week_number'' (load_weekly_df s user_id) = column ''week_number'' out2"
        using o(1) ensure_weekly_cols_column[OF cols(3)]
          column_assign_series_other[OF len, of "''week_number''" "''weekly_weight_loss''"]
        by simp
      show ?thesis using 1 2 3 o(4) by simp
    qed
  qed
  have nth: "\<forall>i < length (rows ?f).
         (rows ?f ! i) ''weekly_weight_loss'' =
           (if i = 0 then None
            else minus_opt ((rows ?f ! i) ''avg_weight_kg'') ((rows ?f ! (i - 1)) ''avg_weight_kg''))"
  proof (intro allI impI)
    fix i assume i: "i < length (rows ?f)"
    then have i': "i < length (column ''avg_weight_kg'' ?f)" by (simp add: column_def)
    have "(rows ?f ! i) ''weekly_weight_loss'' = column ''weekly_weight_loss'' ?f ! i"
      using i by (simp add: column_def)
    also have "\<dots> = diff (column ''avg_weight_kg'' ?f) ! i" using main by simp
    also have "\<dots> = (if i = 0 then None
        else minus_opt (column ''avg_weight_kg'' ?f ! i) (column ''avg_weight_kg'' ?f ! (i - 1)))"
      using diff_nth[OF i'] .
    also have "\<dots> = (if i = 0 then None
        else minus_opt ((rows ?f ! i) ''avg_weight_kg'') ((rows ?f ! (i - 1)) ''avg_weight_kg''))"
      using i by (simp add: column_def)
    finally show "(rows ?f ! i) ''weekly_weight_loss'' =
           (if i = 0 then None
            else minus_opt ((rows ?f ! i) ''avg_weight_kg'') ((rows ?f ! (i - 1)) ''avg_weight_kg''))" .
  qed
  have ex: "diff [Some 90, Some (177 / 2), Some (177 / 2)] = [None, Some (- 3 / 2), Some 0]"
    by (simp add: diff_def minus_opt_def)
  show ?thesis using main nth ex by blast
qed

section \<open>Concrete runs\<close>

text \<open>The theorems above at the example stores, and the runs that correct C2 and C8.\<close>

theorem bootstrap_user_once_witness:
  "users empty_store = []
   \<and> users (fst (bootstrap_user empty_store)) =
        [\<lparr>u_id = 1, name = ''You'', email = None, height_cm = None, goal_weight_kg = None,
          units = ''metric''\<rparr>]
   \<and> length (users (fst (bootstrap_user (fst (bootstrap_user empty_store))))) = 1
   \<and> users user_store \<noteq> []
   \<and> fst (bootstrap_user user_store) = user_store"
proof -
  have h: "users empty_store = []" by (simp add: empty_store_def)
  have "users user_store = [\<lparr>u_id = 1, name = ''You'', email = None, height_cm = None, goal_weight_kg = None,
          units = ''metric''\<rparr>]"
    using bootstrap_user_once[of empty_store user_store] h by (simp add: user_store_def)
  then have h2: "users user_store \<noteq> []" by simp
  show ?thesis
    using bootstrap_user_once[of empty_store user_store] h h2 by simp
qed

theorem guarded_deletion_witness:
  "''delete'' \<noteq> ''DELETE''
   \<and> delete_by_date two_user_store ''delete'' 739257 739264 True True
       = (two_user_store, Error ''Please type DELETE to confirm.'')
   \<and> delete_by_week two_user_store ''delete'' 1 2 True True
       = (two_user_store, Error ''Please type DELETE to confirm.'')"
proof -
  have h: "''delete'' \<noteq> ''DELETE''" by simp
  show ?thesis using h guarded_deletion[OF h, of two_user_store 739257 739264 True True 1 2 True True]
    by simp
qed

theorem empty_week_cascade_witness:
  "1 \<in> set (empty_weeks
             (two_user_store\<lparr>dailies := filter (\<lambda>dm. \<not> (739257 \<le> dm_date dm \<and> dm_date dm \<le> 739264)) (dailies two_user_store)\<rparr>)
             (touched_week_ids (filter (\<lambda>dm. 739257 \<le> dm_date dm \<and> dm_date dm \<le> 739264) (dailies two_user_store))))
   \<and> 1 \<notin> m_week_id ` set (measurements (fst (delete_by_date two_user_store ''DELETE'' 739257 739264 True True)))
   \<and> 1 \<notin> wb_week_id ` set (wellbeings (fst (delete_by_date two_user_store ''DELETE'' 739257 739264 True True)))
   \<and> 1 \<notin> ad_week_id ` set (adherences (fst (delete_by_date two_user_store ''DELETE'' 739257 739264 True True)))
   \<and> 1 \<notin> w_id ` set (weeks (fst (delete_by_date two_user_store ''DELETE'' 739257 739264 True True)))
   \<and> 2 \<notin> set (empty_weeks
             (two_user_store\<lparr>dailies := filter (\<lambda>dm. \<not> (739257 \<le> dm_date dm \<and> dm_date dm \<le> 739264)) (dailies two_user_store)\<rparr>)
             (touched_week_ids (filter (\<lambda>dm. 739257 \<le> dm_date dm \<and> dm_date dm \<le> 739264) (dailies two_user_store))))
   \<and> filter (\<lambda>m. m_week_id m = 2) (measurements (fst (delete_by_date two_user_store ''DELETE'' 739257 739264 True True)))
       = filter (\<lambda>m. m_week_id m = 2) (measurements two_user_store)
   \<and> filter (\<lambda>w. w_id w = 2) (weeks (fst (delete_by_date two_user_store ''DELETE'' 739257 739264 True True)))
       = filter (\<lambda>w. w_id w = 2) (weeks two_user_store)
   \<and> map m_id (filter (\<lambda>m. m_week_id m = 2) (measurements two_user_store)) = [2]"
proof -
  have hA: "(\<exists>dm\<in>set (dailies two_user_store). dm_week_id dm = Some 1)
      \<and> (\<forall>dm\<in>set (dailies two_user_store). dm_week_id dm = Some 1 \<longrightarrow> 739257 \<le> dm_date dm \<and> dm_date dm \<le> 739264)"
    by (simp add: two_user_store_def)
  have hB: "\<exists>dm\<in>set (dailies two_user_store). dm_week_id dm = Some 2 \<and> \<not> (739257 \<le> dm_date dm \<and> dm_date dm \<le> 739264)"
    by (simp add: two_user_store_def)
  have c: "map m_id (filter (\<lambda>m. m_week_id m = 2) (measurements two_user_store)) = [2]"
    by (simp add: two_user_store_def)
  from empty_week_cascade[of two_user_store 1 739257 739264 True True 2] hA hB c
  show ?thesis by (simp add: image_iff)
qed

theorem bulk_deletion_not_user_scoped_witness:
  "map dm_user_id (filter (\<lambda>dm. 739257 \<le> dm_date dm \<and> dm_date dm \<le> 739264) (dailies two_user_store)) = [1, 1, 1, 2]
   \<and> map dm_id (dailies (fst (delete_by_date two_user_store ''DELETE'' 739257 739264 False False))) = [4]
   \<and> map w_user_id (filter (\<lambda>w. 1 \<le> week_number w \<and> week_number w \<le> 1) (weeks two_user_store)) = [1, 2]
   \<and> Some 1 \<notin> dm_week_id ` set (dailies (fst (delete_by_week two_user_store ''DELETE'' 1 1 True True)))
   \<and> Some 3 \<notin> dm_week_id ` set (dailies (fst (delete_by_week two_user_store ''DELETE'' 1 1 True True)))
   \<and> \<lparr>w_id = 3, w_user_id = 2, week_number = 1, start_date = 739257\<rparr>
         \<notin> set (weeks (fst (delete_by_week two_user_store ''DELETE'' 1 1 True True)))"
proof -
  have a: "map dm_user_id (filter (\<lambda>dm. 739257 \<le> dm_date dm \<and> dm_date dm \<le> 739264) (dailies two_user_store)) = [1, 1, 1, 2]"
    by (simp add: two_user_store_def)
  have b: "map dm_id (filter (\<lambda>dm. \<not> (739257 \<le> dm_date dm \<and> dm_date dm \<le> 739264)) (dailies two_user_store)) = [4]"
    by (simp add: two_user_store_def)
  have c: "map w_user_id (filter (\<lambda>w. 1 \<le> week_number w \<and> week_number w \<le> 1) (weeks two_user_store)) = [1, 2]"
    by (simp add: two_user_store_def)
  have w1: "\<lparr>w_id = 1, w_user_id = 1, week_number = 1, start_date = 739257\<rparr> \<in> set (weeks two_user_store)"
    by (simp add: two_user_store_def)
  have w3: "\<lparr>w_id = 3, w_user_id = 2, week_number = 1, start_date = 739257\<rparr> \<in> set (weeks two_user_store)"
    by (simp add: two_user_store_def)
  note t = bulk_deletion_not_user_scoped[of two_user_store 739257 739264 False False 1 1 True True]
  have d1: "Some 1 \<notin> dm_week_id ` set (dailies (fst (delete_by_week two_user_store ''DELETE'' 1 1 True True)))"
    using t w1 by force
  have d3: "Some 3 \<notin> dm_week_id ` set (dailies (fst (delete_by_week two_user_store ''DELETE'' 1 1 True True)))
      \<and> \<lparr>w_id = 3, w_user_id = 2, week_number = 1, start_date = 739257\<rparr>
         \<notin> set (weeks (fst (delete_by_week two_user_store ''DELETE'' 1 1 True True)))"
    using t w3 by force
  show ?thesis using a b c d1 d3 t by simp
qed

lemma user_store_eval:
  "user_store = \<lparr>users = [\<lparr>u_id = 1, name = ''You'', email = None, height_cm = None,
                 goal_weight_kg = None, units = ''metric''\<rparr>], weeks = [], dailies = [], measurements = [], wellbeings = [],
                   adherences = []\<rparr>"
  by (simp add: user_store_def empty_store_def bootstrap_user_def first_def next_id_def Let_def)

lemma monday_start_739259: "monday_start 739259 = 739257"
  by (simp add: monday_start_def weekday_def)

lemma monday_start_739257: "monday_start 739257 = 739257"
  by (simp add: monday_start_def weekday_def)

lemma monday_start_739250: "monday_start 739250 = 739250"
  by (simp add: monday_start_def weekday_def)

theorem steps_to_km_exact_witness:
  "steps_to_km (Some 12319) = Some (12319 * 8 / 8900)
   \<and> e_id example_edit = Some 1 \<and> e_steps example_edit = Some 12319
   \<and> (\<exists>s' dm. save_change two_user_store example_edit = Inr s'
         \<and> find (\<lambda>dm. dm_id dm = 1) (dailies s') = Some dm
         \<and> run_km dm = Some (12319 * 8 / 8900))"
proof -
  have p: "py_int 1 = 1" using py_int_of_int[of 1] by simp
  have h: "e_id example_edit = Some 1
     \<and> find (\<lambda>dm. dm_id dm = py_int 1) (dailies two_user_store)
         = Some \<lparr>dm_id = 1, dm_user_id = 1, dm_date = 739257, dm_week_id = Some 1,
                   weight_kg = Some 90, steps = Some 12319, run_km = Some (12319 * 8 / 8900)\<rparr>
     \<and> e_steps example_edit = Some (of_int 12319)"
    by (simp add: example_edit_def two_user_store_def p)
  from steps_to_km_exact[where x = 12319 and r = example_edit and i = 1 and s = two_user_store
      and n = 12319 and old = "\<lparr>dm_id = 1, dm_user_id = 1, dm_date = 739257, dm_week_id = Some 1,
                   weight_kg = Some 90, steps = Some 12319, run_km = Some (12319 * 8 / 8900)\<rparr>"] h p
  show ?thesis by simp
qed

theorem week_numbering_witness:
  "filter (\<lambda>w. w_user_id w = 1) (weeks user_store) = []
   \<and> week_number (snd (get_or_create_week user_store 1 739259)) = 1
   \<and> start_date (snd (get_or_create_week user_store 1 739259)) = 739257
   \<and> map week_number (filter (\<lambda>w. w_user_id w = 1) (weeks two_user_store)) = [1, 2]
   \<and> week_number (snd (get_or_create_week two_user_store 1 739250)) = 3
   \<and> start_date (snd (get_or_create_week two_user_store 1 739250)) = 739250
   \<and> import_week user_store 1 (hd (body example_csv)) =
        Inr (user_store\<lparr>weeks := [\<lparr>w_id = 1, w_user_id = 1, week_number = 5, start_date = 739257\<rparr>]\<rparr>,
             \<lparr>w_id = 1, w_user_id = 1, week_number = 5, start_date = 739257\<rparr>, True)"
proof -
  have p: "py_int 5 = 5" using py_int_of_int[of 5] by simp
  have h1: "find (\<lambda>w. w_user_id w = 1 \<and> start_date w = monday_start 739259) (weeks user_store) = None"
    by (simp add: user_store_eval)
  have h2: "find (\<lambda>w. w_user_id w = 1 \<and> start_date w = monday_start 739250) (weeks two_user_store) = None"
    by (simp add: two_user_store_def monday_start_739250)
  have h3: "find (\<lambda>w. w_user_id w = 1 \<and> start_date w = csv_start_date (hd (body example_csv))) (weeks user_store) = None
      \<and> csv_week_number (hd (body example_csv)) = Some 5"
    by (simp add: user_store_eval example_csv_def)
  have e1: "filter (\<lambda>w. w_user_id w = 1) (weeks user_store) = []" by (simp add: user_store_eval)
  have e2: "filter (\<lambda>w. w_user_id w = 1) (weeks two_user_store) =
      [\<lparr>w_id = 1, w_user_id = 1, week_number = 1, start_date = 739257\<rparr>,
       \<lparr>w_id = 2, w_user_id = 1, week_number = 2, start_date = 739264\<rparr>]"
    by (simp add: two_user_store_def)
  have e3: "csv_start_date (hd (body example_csv)) = 739257" by (simp add: example_csv_def)
  have e4: "weeks user_store = []" by (simp add: user_store_eval)
  from week_numbering[of 1 739259 user_store "hd (body example_csv)" 5] h1 h3 e1 e3 e4 p
  have a: "week_number (snd (get_or_create_week user_store 1 739259)) = 1
      \<and> start_date (snd (get_or_create_week user_store 1 739259)) = 739257
      \<and> import_week user_store 1 (hd (body example_csv)) =
        Inr (user_store\<lparr>weeks := [\<lparr>w_id = 1, w_user_id = 1, week_number = 5, start_date = 739257\<rparr>]\<rparr>,
             \<lparr>w_id = 1, w_user_id = 1, week_number = 5, start_date = 739257\<rparr>, True)"
    by (simp add: monday_start_739259 next_id_def)
  from week_numbering[of 1 739250 two_user_store "hd (body example_csv)" 5] h2 e2
  have b: "week_number (snd (get_or_create_week two_user_store 1 739250)) = 3
      \<and> start_date (snd (get_or_create_week two_user_store 1 739250)) = 739250"
    by (simp add: monday_start_739250)
  show ?thesis using a b e1 e2 by simp
qed

text \<open>
  Against C2 as stated: the user has no week, and the week that the CSV import creates
  for the template row gets the row's week number 5, not 1.
\<close>

theorem import_week_number_counterexample:
  "filter (\<lambda>w. w_user_id w = 1) (weeks user_store) = []
   \<and> map week_number (weeks (fst (import_csv user_store example_csv))) = [5]
   \<and> snd (import_csv user_store example_csv) = Imported 1 1"
  by code_simp

theorem week_resolution_idempotent_witness:
  "length (filter (\<lambda>w. w_user_id w = 1 \<and> start_date w = monday_start 739259) (weeks user_store)) \<le> 1
   \<and> snd (get_or_create_week (fst (get_or_create_week user_store 1 739259)) 1 739259)
       = snd (get_or_create_week user_store 1 739259)
   \<and> length (filter (\<lambda>w. w_user_id w = 1 \<and> start_date w = monday_start 739259)
        (weeks (fst (get_or_create_week (fst (get_or_create_week user_store 1 739259)) 1 739259)))) = 1"
proof -
  have h: "length (filter (\<lambda>w. w_user_id w = 1 \<and> start_date w = monday_start 739259) (weeks user_store)) \<le> 1"
    by (simp add: user_store_eval)
  from week_resolution_idempotent[of user_store 1 739259] h show ?thesis by blast
qed

text \<open>
  Against C8 as stated: in the store reached by resolving two weeks and editing the
  second week's start date on the manage-data page, resolving 2025-01-06 twice returns
  week 1 both times and creates nothing, yet the user has two Week rows for that Monday.
\<close>

theorem duplicate_week_counterexample:
  "w_id (snd (get_or_create_week duplicate_week_store 1 739257)) = 1
   \<and> w_id (snd (get_or_create_week (fst (get_or_create_week duplicate_week_store 1 739257)) 1 739257)) = 1
   \<and> length (filter (\<lambda>w. w_user_id w = 1 \<and> start_date w = monday_start 739257)
        (weeks (fst (get_or_create_week (fst (get_or_create_week duplicate_week_store 1 739257)) 1 739257)))) = 2"
  by code_simp

lemma weights_store_avg:
  "column ''avg_weight_kg'' (load_weekly_df weights_store 1) = [Some 90, Some (177 / 2), Some (177 / 2)]"
  by code_simp

theorem load_weekly_df_columns_witness:
  "filter (\<lambda>dm. dm_user_id dm = 1) (dailies user_store) = []
   \<and> rows (load_weekly_df user_store 1) = []
   \<and> length (columns (load_weekly_df user_store 1)) = 17
   \<and> ''weekly_weight_loss'' \<in> set (columns (load_weekly_df weights_store 1))
   \<and> ''stress_issues'' \<in> set (columns (load_weekly_df weights_store 1))"
proof -
  have h: "filter (\<lambda>dm. dm_user_id dm = 1) (dailies user_store) = []"
    by (simp add: user_store_eval)
  have l: "length (columns (load_weekly_df user_store 1)) = 17" by code_simp
  from load_weekly_df_columns[of user_store 1] h
  have a: "rows (load_weekly_df user_store 1) = []" by simp
  from load_weekly_df_columns[of weights_store 1]
  have b: "''weekly_weight_loss'' \<in> set (columns (load_weekly_df weights_store 1))
   \<and> ''stress_issues'' \<in> set (columns (load_weekly_df weights_store 1))" by simp
  show ?thesis using h a b l by simp
qed

theorem weekly_weight_loss_diff_witness:
  "column ''avg_weight_kg'' (load_weekly_df weights_store 1)
     = [Some 90, Some (177 / 2), Some (177 / 2)]
   \<and> column ''weekly_weight_loss'' (load_weekly_df weights_store 1)
     = [None, Some (- 3 / 2), Some 0]"
  using weekly_weight_loss_diff[of weights_store 1] weights_store_avg by simp

end
